theory Spec2Isabelle
  imports Main
begin

section \<open>Python values, exceptions and string built-ins\<close>

text \<open>
  The model follows \<^verbatim>\<open>src/python3/GenericInstrumentConnection.py\<close>. Python text is a
  \<^typ>\<open>string\<close> whose characters are code points below 256; an exception is a value
  carrying its class and the \<^verbatim>\<open>str()\<close> of each element of its \<^verbatim>\<open>args\<close> tuple. Only
  instances of \<^verbatim>\<open>Exception\<close> are modelled (what \<^verbatim>\<open>except Exception\<close> catches).
\<close>

datatype exc_class =
  AttributeError | ValueError | TypeError | IndexError | ConnectionError
  | OSError | TimeoutError | UnicodeError | MemoryError

datatype exn = Exn (exc_class: exc_class) (exc_args: "string list")

datatype pyval = PyNone | PyInt int | PyStr string | PyList "pyval list"

text \<open>A transfer's two-element status list \<^verbatim>\<open>[code, text]\<close>.\<close>

type_synonym status = "int \<times> string"

text \<open>\<^verbatim>\<open>str(n)\<close> for an integer: decimal digits, a minus sign when negative.\<close>

definition digit_char :: "nat \<Rightarrow> char" where
  "digit_char d = char_of (48 + d)"

fun str_nat :: "nat \<Rightarrow> string" where
  "str_nat n = (if n < 10 then [digit_char n] else str_nat (n div 10) @ [digit_char (n mod 10)])"

declare str_nat.simps [simp del]

definition str_int :: "int \<Rightarrow> string" where
  "str_int i = (if i < 0 then CHR ''-'' # str_nat (nat (- i)) else str_nat (nat i))"

definition str_opt_int :: "int option \<Rightarrow> string" where
  "str_opt_int v = (case v of None \<Rightarrow> ''None'' | Some i \<Rightarrow> str_int i)"

definition str_opt_str :: "string option \<Rightarrow> string" where
  "str_opt_str v = (case v of None \<Rightarrow> ''None'' | Some s \<Rightarrow> s)"

text \<open>\<^verbatim>\<open>s[-1]\<close>: the last character, IndexError on the empty string.\<close>

definition py_last :: "string \<Rightarrow> exn + char" where
  "py_last s =
     (case s of
        [] \<Rightarrow> Inl (Exn IndexError [''string index out of range''])
      | _ # _ \<Rightarrow> Inr (last s))"

text \<open>\<^verbatim>\<open>s.split(sep, 1)\<close> for a one-character separator: one or two pieces.\<close>

definition py_split1 :: "char \<Rightarrow> string \<Rightarrow> string list" where
  "py_split1 sep s =
     (if sep \<in> set s
      then [takeWhile (\<lambda>c. c \<noteq> sep) s, tl (dropWhile (\<lambda>c. c \<noteq> sep) s)]
      else [s])"

text \<open>
  \<^verbatim>\<open>repr(s)\<close> of a string, as it appears in the message of the ValueError that
  \<^verbatim>\<open>int(s)\<close> raises.
\<close>

definition hex_char :: "nat \<Rightarrow> char" where
  "hex_char d = (if d < 10 then char_of (48 + d) else char_of (87 + d))"

definition repr_char :: "char \<Rightarrow> char \<Rightarrow> string" where
  "repr_char q c =
     (let n = (of_char c :: nat) in
      if c = CHR 0x5C then [CHR 0x5C, CHR 0x5C]
      else if c = q then [CHR 0x5C, q]
      else if n = 10 then [CHR 0x5C, CHR ''n'']
      else if n = 13 then [CHR 0x5C, CHR ''r'']
      else if n = 9 then [CHR 0x5C, CHR ''t'']
      else if n < 32 \<or> (127 \<le> n \<and> n \<le> 160) \<or> n = 173
        then [CHR 0x5C, CHR ''x'', hex_char (n div 16), hex_char (n mod 16)]
      else [c])"

definition py_repr :: "string \<Rightarrow> string" where
  "py_repr s =
     (let q = (if CHR 0x27 \<in> set s \<and> CHR 0x22 \<notin> set s then CHR 0x22 else CHR 0x27)
      in q # concat (map (repr_char q) s) @ [q])"

text \<open>
  \<^verbatim>\<open>int(s)\<close> in base 10: surrounding whitespace (the characters 9 to 13, the space, 0x85
  and 0xA0) is stripped, one sign is allowed, then decimal digits, single underscores
  allowed between digits. Anything else raises ValueError, whose message shows at most
  the first 200 characters of \<^verbatim>\<open>repr(s)\<close>.
\<close>

definition is_space :: "char \<Rightarrow> bool" where
  "is_space c =
     (let n = (of_char c :: nat) in
      (9 \<le> n \<and> n \<le> 13) \<or> n = 32 \<or> n = 133 \<or> n = 160)"

definition is_digit :: "char \<Rightarrow> bool" where
  "is_digit c = (let n = (of_char c :: nat) in 48 \<le> n \<and> n \<le> 57)"

definition py_strip :: "string \<Rightarrow> string" where
  "py_strip s = rev (dropWhile is_space (rev (dropWhile is_space s)))"

fun digits_ok :: "string \<Rightarrow> bool" where
  "digits_ok [] = False"
| "digits_ok [c] = is_digit c"
| "digits_ok (c # d # cs) =
     (is_digit c \<and> (if d = CHR ''_'' then digits_ok cs else digits_ok (d # cs)))"

definition unsigned_part :: "string \<Rightarrow> string" where
  "unsigned_part t =
     (case t of
        [] \<Rightarrow> []
      | c # r \<Rightarrow> if c = CHR ''-'' \<or> c = CHR ''+'' then r else t)"

definition is_int_literal :: "string \<Rightarrow> bool" where
  "is_int_literal s = digits_ok (unsigned_part (py_strip s))"

definition digits_value :: "string \<Rightarrow> int" where
  "digits_value ds =
     foldl (\<lambda>a c. 10 * a + (int (of_char c) - 48)) 0 (filter (\<lambda>c. c \<noteq> CHR ''_'') ds)"

definition int_literal_value :: "string \<Rightarrow> int" where
  "int_literal_value s =
     (let t = py_strip s; v = digits_value (unsigned_part t)
      in if t \<noteq> [] \<and> hd t = CHR ''-'' then - v else v)"

definition int_error_text :: "string \<Rightarrow> string" where
  "int_error_text s = ''invalid literal for int() with base 10: '' @ take 200 (py_repr s)"

definition py_int :: "string \<Rightarrow> exn + int" where
  "py_int s =
     (if is_int_literal s then Inr (int_literal_value s)
      else Inl (Exn ValueError [int_error_text s]))"

section \<open>The connection object and its constructor\<close>

record connection =
  connection_type :: string
  device_ip_address :: "string option"
  device_port :: int
  device_gpib_address :: "int option"
  message_termination_character :: string

definition squote :: "string \<Rightarrow> string" where
  "squote s = CHR 0x27 # s @ [CHR 0x27]"

text \<open>
  \<^verbatim>\<open>__ValidateGpibAddress\<close> returns 1 or 0; comparing \<^verbatim>\<open>None\<close> with an integer raises
  TypeError.
\<close>

definition ValidateGpibAddress :: "int option \<Rightarrow> exn + int" where
  "ValidateGpibAddress gpib_address =
     (case gpib_address of
        None \<Rightarrow>
          Inl (Exn TypeError
            [squote ''>='' @ '' not supported between instances of ''
               @ squote ''NoneType'' @ '' and '' @ squote ''int''])
      | Some a \<Rightarrow> if a \<ge> 1 \<and> a \<le> 30 then Inr 1 else Inr 0)"

text \<open>\<^verbatim>\<open>__init__\<close>: the checks in the order of the source, then the attributes.\<close>

definition init :: "string option \<Rightarrow> string option \<Rightarrow> int option \<Rightarrow> exn + connection" where
  "init connection_type' device_ip_address' device_gpib_address' =
     (if connection_type' \<notin> set [Some ''tcpip'', Some ''gpiboe'']
      then Inl (Exn AttributeError
             [''Connection type '' @ [CHR 0x22] @ str_opt_str connection_type' @ [CHR 0x22]
                @ '' not supported!''])
      else
        (case (if connection_type' = Some ''gpiboe''
               then (case ValidateGpibAddress device_gpib_address' of
                       Inl e \<Rightarrow> Some e
                     | Inr ok \<Rightarrow>
                         if ok = 0 then Some (Exn ValueError [''GPIB address out of range!''])
                         else None)
               else None) of
           Some e \<Rightarrow> Inl e
         | None \<Rightarrow>
             Inr \<lparr> connection_type = str_opt_str connection_type',
                   device_ip_address = device_ip_address',
                   device_port = 5025,
                   device_gpib_address = device_gpib_address',
                   message_termination_character = ''\<newline>'' \<rparr>))"

text \<open>The two named constructors.\<close>

definition tcpip :: "string option \<Rightarrow> exn + connection" where
  "tcpip device_ip_address' = init (Some ''tcpip'') device_ip_address' None"

definition gpiboe :: "int option \<Rightarrow> string option \<Rightarrow> exn + connection" where
  "gpiboe device_gpib_address' gpib_gateway_ip_address =
     init (Some ''gpiboe'') gpib_gateway_ip_address device_gpib_address'"

section \<open>The network: sockets as a scripted environment\<close>

text \<open>
  Every call of \<^verbatim>\<open>__TcpipTransfer\<close> opens a socket of its own. What the network and the
  peer do to that socket is a \<open>peer\<close> script: which socket operation raises, and what the
  successive \<^verbatim>\<open>recv(4096)\<close> calls deliver, already decoded (a decoding failure is a raised
  exception like any other). An empty chunk is what \<^verbatim>\<open>recv\<close> returns once the peer has
  closed. The world holds one script per socket to come, the number of sockets used so
  far, and the log of the socket operations called.
\<close>

datatype recv_result = Chunk string | RecvRaises exn

record peer =
  socket_raises :: "exn option"
  connect_raises :: "exn option"
  sendall_raises :: "exn option"
  recv_results :: "nat \<Rightarrow> recv_result"
  shutdown_raises :: "exn option"
  close_raises :: "exn option"

datatype event =
  Socket | Settimeout int | Connect "string option" int | Sendall string
  | Recv nat | Shutdown | Close

record world =
  peers :: "nat \<Rightarrow> peer"
  calls :: nat
  trace :: "event list"

section \<open>Direct transport\<close>

text \<open>
  The \<^verbatim>\<open>while True\<close> loop of \<^verbatim>\<open>__TcpipTransfer\<close>: receive, append, stop when the last
  character of the accumulated text is the terminator. It need not terminate, so the
  result is an option; the second component counts the \<^verbatim>\<open>recv\<close> calls made.
\<close>

partial_function (option) recv_loop ::
  "string \<Rightarrow> (nat \<Rightarrow> recv_result) \<Rightarrow> nat \<Rightarrow> string \<Rightarrow> ((exn + string) \<times> nat) option" where
  "recv_loop terminator rs i recv_msg =
     (case rs i of
        RecvRaises e \<Rightarrow> Some (Inl e, Suc i)
      | Chunk recv_buffer \<Rightarrow>
          (let recv_msg' = recv_msg @ recv_buffer in
           case py_last recv_msg' of
             Inl e \<Rightarrow> Some (Inl e, Suc i)
           | Inr c \<Rightarrow>
               if [c] = terminator then Some (Inr recv_msg', Suc i)
               else recv_loop terminator rs (Suc i) recv_msg'))"

declare recv_loop.simps [code]

text \<open>
  The body of the \<^verbatim>\<open>try\<close> block: the text received or the exception raised, with the
  socket operations called on the way.
\<close>

definition TcpipTransfer_try ::
  "connection \<Rightarrow> peer \<Rightarrow> string \<Rightarrow> bool \<Rightarrow> int \<Rightarrow> ((exn + string) \<times> event list) option" where
  "TcpipTransfer_try self p message read_response connection_timeout =
     (let ev1 = [Socket];
          ev2 = ev1 @ [Settimeout connection_timeout];
          ev3 = ev2 @ [Connect (device_ip_address self) (device_port self)];
          ev4 = ev3 @ [Sendall message]
      in
      (case socket_raises p of
         Some e \<Rightarrow> Some (Inl e, ev1)
       | None \<Rightarrow>
          if connection_timeout < 0
          then Some (Inl (Exn ValueError [''Timeout value out of range'']), ev2)
          else
            (case connect_raises p of
               Some e \<Rightarrow> Some (Inl e, ev3)
             | None \<Rightarrow>
                (case sendall_raises p of
                   Some e \<Rightarrow> Some (Inl e, ev4)
                 | None \<Rightarrow>
                    (case (if read_response
                           then recv_loop (message_termination_character self)
                                  (recv_results p) 0 []
                           else Some (Inr [], 0)) of
                       None \<Rightarrow> None
                     | Some (Inl e, n) \<Rightarrow> Some (Inl e, ev4 @ replicate n (Recv 4096))
                     | Some (Inr recv_msg, n) \<Rightarrow>
                         (let ev5 = ev4 @ replicate n (Recv 4096) @ [Shutdown] in
                          (case shutdown_raises p of
                             Some e \<Rightarrow> Some (Inl e, ev5)
                           | None \<Rightarrow>
                              (case close_raises p of
                                 Some e \<Rightarrow> Some (Inl e, ev5 @ [Close])
                               | None \<Rightarrow> Some (Inr recv_msg, ev5 @ [Close])))))))))"

text \<open>
  The \<^verbatim>\<open>return [0, recv_msg]\<close> and the \<^verbatim>\<open>except Exception as err\<close> handler, which reads
  \<^verbatim>\<open>err.args[0]\<close>: on an empty \<^verbatim>\<open>args\<close> tuple the handler itself raises IndexError.
\<close>

definition TcpipTransfer_except :: "exn + string \<Rightarrow> exn + status" where
  "TcpipTransfer_except r =
     (case r of
        Inr recv_msg \<Rightarrow> Inr (0, recv_msg)
      | Inl err \<Rightarrow>
          (case exc_args err of
             [] \<Rightarrow> Inl (Exn IndexError [''tuple index out of range''])
           | a # _ \<Rightarrow> Inr (- 1, ''[ERROR] during TCPIP transfer: '' @ a)))"

definition TcpipTransfer ::
  "connection \<Rightarrow> string \<Rightarrow> bool \<Rightarrow> int \<Rightarrow> world \<Rightarrow> ((exn + status) \<times> world) option" where
  "TcpipTransfer self message read_response connection_timeout w =
     (case TcpipTransfer_try self (peers w (calls w)) message read_response connection_timeout of
        None \<Rightarrow> None
      | Some (r, evs) \<Rightarrow>
          Some (TcpipTransfer_except r, w\<lparr>calls := Suc (calls w), trace := trace w @ evs\<rparr>))"

section \<open>Gateway-framed transport\<close>

text \<open>\<^verbatim>\<open>__ParseGpiboeReceiveMessage\<close>: split on the first bar, convert the first piece.\<close>

definition ParseGpiboeReceiveMessage :: "string \<Rightarrow> exn + status" where
  "ParseGpiboeReceiveMessage message =
     (let message' = py_split1 (CHR ''|'') message in
      if length message' > 1
      then (case py_int (message' ! 0) of
              Inl e \<Rightarrow> Inl e
            | Inr code \<Rightarrow> Inr (code, message' ! 1))
      else (case py_int (message' ! 0) of
              Inl e \<Rightarrow> Inl e
            | Inr code \<Rightarrow> Inr (code, [])))"

definition write_frame :: "connection \<Rightarrow> string \<Rightarrow> string" where
  "write_frame self message = ''W|'' @ str_opt_int (device_gpib_address self) @ ''|'' @ message"

definition read_frame :: "connection \<Rightarrow> string" where
  "read_frame self =
     ''R|'' @ str_opt_int (device_gpib_address self) @ message_termination_character self"

definition GpiboeTransfer ::
  "connection \<Rightarrow> string \<Rightarrow> bool \<Rightarrow> int \<Rightarrow> world \<Rightarrow> ((exn + status) \<times> world) option" where
  "GpiboeTransfer self message read_response connection_timeout w =
     (case TcpipTransfer self (write_frame self message) True connection_timeout w of
        None \<Rightarrow> None
      | Some (Inl e, w1) \<Rightarrow> Some (Inl e, w1)
      | Some (Inr status, w1) \<Rightarrow>
          if fst status \<noteq> 0 then Some (Inr status, w1)
          else
            (case ParseGpiboeReceiveMessage (snd status) of
               Inl e \<Rightarrow> Some (Inl e, w1)
             | Inr gpiboe_status \<Rightarrow>
                 if fst gpiboe_status \<noteq> 0 then Some (Inr gpiboe_status, w1)
                 else if read_response
                 then
                   (case TcpipTransfer self (read_frame self) True connection_timeout w1 of
                      None \<Rightarrow> None
                    | Some (Inl e, w2) \<Rightarrow> Some (Inl e, w2)
                    | Some (Inr status', w2) \<Rightarrow>
                        if fst status' \<noteq> 0 then Some (Inr status', w2)
                        else
                          (case ParseGpiboeReceiveMessage (snd status') of
                             Inl e \<Rightarrow> Some (Inl e, w2)
                           | Inr gpiboe_status' \<Rightarrow> Some (Inr gpiboe_status', w2)))
                 else Some (Inr gpiboe_status, w1)))"

section \<open>The public interface\<close>

text \<open>
  \<^verbatim>\<open>__HandleStatus\<close> returns the status list itself when its code is 0 and raises
  ConnectionError otherwise.
\<close>

definition HandleStatus :: "status \<Rightarrow> exn + pyval" where
  "HandleStatus status =
     (if fst status = 0 then Inr (PyList [PyInt (fst status), PyStr (snd status)])
      else Inl (Exn ConnectionError
             [''ERROR: '' @ str_int (fst status) @ '', '' @ snd status]))"

text \<open>
  The first statement of \<^verbatim>\<open>write\<close> and of \<^verbatim>\<open>query\<close>: read \<^verbatim>\<open>message[-1]\<close>, append the
  terminator when it differs.
\<close>

definition terminated :: "connection \<Rightarrow> string \<Rightarrow> exn + string" where
  "terminated self message =
     (case py_last message of
        Inl e \<Rightarrow> Inl e
      | Inr c \<Rightarrow>
          if [c] \<noteq> message_termination_character self
          then Inr (message @ message_termination_character self)
          else Inr message)"

text \<open>\<^verbatim>\<open>write\<close>; the name \<open>write\<close> is reserved in theory text, hence \<open>write_cmd\<close>.\<close>

definition write_cmd ::
  "connection \<Rightarrow> string \<Rightarrow> int \<Rightarrow> world \<Rightarrow> ((exn + pyval) \<times> world) option" where
  "write_cmd self message connection_timeout w =
     (case terminated self message of
        Inl e \<Rightarrow> Some (Inl e, w)
      | Inr message' \<Rightarrow>
          (case (if connection_type self = ''gpiboe''
                 then GpiboeTransfer self message' False connection_timeout w
                 else TcpipTransfer self message' False connection_timeout w) of
             None \<Rightarrow> None
           | Some (Inl e, w') \<Rightarrow> Some (Inl e, w')
           | Some (Inr status, w') \<Rightarrow> Some (HandleStatus status, w')))"

definition query ::
  "connection \<Rightarrow> string \<Rightarrow> int \<Rightarrow> world \<Rightarrow> ((exn + pyval) \<times> world) option" where
  "query self message connection_timeout w =
     (case terminated self message of
        Inl e \<Rightarrow> Some (Inl e, w)
      | Inr message' \<Rightarrow>
          (case (if connection_type self = ''gpiboe''
                 then GpiboeTransfer self message' True connection_timeout w
                 else TcpipTransfer self message' True connection_timeout w) of
             None \<Rightarrow> None
           | Some (Inl e, w') \<Rightarrow> Some (Inl e, w')
           | Some (Inr status, w') \<Rightarrow> Some (HandleStatus status, w')))"

section \<open>Observations on a run\<close>

text \<open>The frames handed to \<^verbatim>\<open>sendall\<close>, in order.\<close>

fun sent :: "event list \<Rightarrow> string list" where
  "sent [] = []"
| "sent (Sendall m # es) = m # sent es"
| "sent (_ # es) = sent es"

text \<open>
  The socket of a direct transfer gets as far as \<^verbatim>\<open>sendall\<close>: \<^verbatim>\<open>socket\<close>, \<^verbatim>\<open>settimeout\<close> and
  \<^verbatim>\<open>connect\<close> do not raise.
\<close>

definition reaches_sendall :: "peer \<Rightarrow> int \<Rightarrow> bool" where
  "reaches_sendall p connection_timeout =
     (socket_raises p = None \<and> 0 \<le> connection_timeout \<and> connect_raises p = None)"

text \<open>The text delivered by the first \<open>n\<close> calls of \<^verbatim>\<open>recv\<close>.\<close>

fun chunk_text :: "recv_result \<Rightarrow> string" where
  "chunk_text (Chunk s) = s"
| "chunk_text (RecvRaises e) = []"

fun is_chunk :: "recv_result \<Rightarrow> bool" where
  "is_chunk (Chunk s) = True"
| "is_chunk (RecvRaises e) = False"

definition received_from :: "(nat \<Rightarrow> recv_result) \<Rightarrow> nat \<Rightarrow> nat \<Rightarrow> string" where
  "received_from rs i n = concat (map (\<lambda>j. chunk_text (rs j)) [i..<n])"

definition received :: "(nat \<Rightarrow> recv_result) \<Rightarrow> nat \<Rightarrow> string" where
  "received rs n = received_from rs 0 n"

text \<open>A text up to and including the first occurrence of a character.\<close>

definition upto_first :: "char \<Rightarrow> string \<Rightarrow> string" where
  "upto_first c s = takeWhile (\<lambda>x. x \<noteq> c) s @ [c]"

text \<open>
  The receive loop started at call \<open>i\<close> with the text \<open>acc\<close> leaves after call \<open>n - 1\<close>: the
  calls \<open>i\<close> to \<open>n - 1\<close> all deliver chunks, the text accumulated after them is non-empty
  and ends with the terminator, and the text accumulated after any earlier call is
  non-empty and does not end with it.
\<close>

definition loop_inv ::
  "string \<Rightarrow> (nat \<Rightarrow> recv_result) \<Rightarrow> nat \<Rightarrow> string \<Rightarrow> nat \<Rightarrow> bool" where
  "loop_inv tm rs i acc n =
     (i < n \<and> (\<forall>j. i \<le> j \<and> j < n \<longrightarrow> is_chunk (rs j))
      \<and> acc @ received_from rs i n \<noteq> [] \<and> [last (acc @ received_from rs i n)] = tm
      \<and> (\<forall>k. i < k \<and> k < n \<longrightarrow>
            acc @ received_from rs i k \<noteq> [] \<and> [last (acc @ received_from rs i k)] \<noteq> tm))"

text \<open>
  Every exception a peer script raises carries at least one argument, as the errors of
  the socket module do (an error number or a message).
\<close>

definition peer_args_ok :: "peer \<Rightarrow> bool" where
  "peer_args_ok p =
     (\<forall>e. (socket_raises p = Some e \<or> connect_raises p = Some e \<or> sendall_raises p = Some e
           \<or> shutdown_raises p = Some e \<or> close_raises p = Some e
           \<or> (\<exists>i. recv_results p i = RecvRaises e))
          \<longrightarrow> exc_args e \<noteq> [])"

section \<open>Scripted peers for concrete runs\<close>

text \<open>A peer that accepts the connection and delivers the given chunks, then closes.\<close>

definition replying :: "string list \<Rightarrow> peer" where
  "replying chunks =
     \<lparr> socket_raises = None, connect_raises = None, sendall_raises = None,
       recv_results = (\<lambda>i. if i < length chunks then Chunk (chunks ! i) else Chunk []),
       shutdown_raises = None, close_raises = None \<rparr>"

text \<open>A peer that accepts the connection and whose every \<^verbatim>\<open>recv\<close> raises the exception.\<close>

definition recv_failing :: "exn \<Rightarrow> peer" where
  "recv_failing e =
     \<lparr> socket_raises = None, connect_raises = None, sendall_raises = None,
       recv_results = (\<lambda>i. RecvRaises e),
       shutdown_raises = None, close_raises = None \<rparr>"

text \<open>A host that refuses the connection.\<close>

definition refusing :: peer where
  "refusing =
     \<lparr> socket_raises = None,
       connect_raises = Some (Exn OSError [''111'', ''Connection refused'']),
       sendall_raises = None, recv_results = (\<lambda>i. Chunk []),
       shutdown_raises = None, close_raises = None \<rparr>"

text \<open>A world whose successive sockets meet the listed peers, and refusals after them.\<close>

definition world_of :: "peer list \<Rightarrow> world" where
  "world_of ps =
     \<lparr> peers = (\<lambda>i. if i < length ps then ps ! i else refusing), calls = 0, trace = [] \<rparr>"

definition direct_conn :: connection where
  "direct_conn =
     \<lparr> connection_type = ''tcpip'', device_ip_address = Some ''192.168.1.20'',
       device_port = 5025, device_gpib_address = None,
       message_termination_character = ''\<newline>'' \<rparr>"

definition gateway_conn :: connection where
  "gateway_conn =
     \<lparr> connection_type = ''gpiboe'', device_ip_address = Some ''192.168.1.30'',
       device_port = 5025, device_gpib_address = Some 5,
       message_termination_character = ''\<newline>'' \<rparr>"

section \<open>Construction\<close>

text \<open>
  Claim C4. Construction succeeds for exactly the two recognised connection kinds and
  fails with AttributeError for every other kind, \<^verbatim>\<open>None\<close> included. For the kind
  \<^verbatim>\<open>gpiboe\<close> it succeeds if and only if the GPIB address is an integer between 1 and 30:
  1 and 30 succeed, 0 and 31 fail with ValueError. The constructor takes no world and
  returns none: the validation involves no socket operation.
\<close>

theorem C4_construction:
  "(k \<noteq> Some ''tcpip'' \<and> k \<noteq> Some ''gpiboe'' \<longrightarrow>
      init k ip g = Inl (Exn AttributeError
        [''Connection type '' @ [CHR 0x22] @ str_opt_str k @ [CHR 0x22] @ '' not supported!'']))
   \<and> init (Some ''tcpip'') ip g =
       Inr \<lparr> connection_type = ''tcpip'', device_ip_address = ip, device_port = 5025,
             device_gpib_address = g, message_termination_character = ''\<newline>'' \<rparr>
   \<and> ((\<exists>c. init (Some ''gpiboe'') ip g = Inr c) \<longleftrightarrow> (\<exists>a. g = Some a \<and> 1 \<le> a \<and> a \<le> 30))
   \<and> ((\<exists>c. init k ip g = Inr c) \<longleftrightarrow>
        (k = Some ''tcpip'' \<or> (k = Some ''gpiboe'' \<and> (\<exists>a. g = Some a \<and> 1 \<le> a \<and> a \<le> 30))))
   \<and> (\<exists>c. init (Some ''gpiboe'') ip (Some 1) = Inr c)
   \<and> (\<exists>c. init (Some ''gpiboe'') ip (Some 30) = Inr c)
   \<and> init (Some ''gpiboe'') ip (Some 0) = Inl (Exn ValueError [''GPIB address out of range!''])
   \<and> init (Some ''gpiboe'') ip (Some 31) = Inl (Exn ValueError [''GPIB address out of range!''])"
  by (cases g) (auto simp: init_def str_opt_str_def ValidateGpibAddress_def)

theorem C4_construction_witness:
  "init (Some ''usb'') None (Some 7) = Inl (Exn AttributeError
        [''Connection type '' @ [CHR 0x22] @ ''usb'' @ [CHR 0x22] @ '' not supported!''])
   \<and> init None None None = Inl (Exn AttributeError
        [''Connection type '' @ [CHR 0x22] @ ''None'' @ [CHR 0x22] @ '' not supported!''])"
  using C4_construction [of "Some ''usb''" None "Some 7"] C4_construction [of None None None]
  by (simp add: str_opt_str_def)

section \<open>Parsing a gateway reply\<close>

lemma split1_bar:
  assumes "c \<notin> set a"
  shows "py_split1 c (a @ c # b) = [a, b]"
proof -
  have ne: "\<And>x. x \<in> set a \<Longrightarrow> x \<noteq> c"
    using assms by auto
  have "takeWhile (\<lambda>x. x \<noteq> c) (a @ c # b) = a"
    using ne by simp
  moreover have "dropWhile (\<lambda>x. x \<noteq> c) (a @ c # b) = c # b"
    using ne by simp
  ultimately show ?thesis
    by (simp add: py_split1_def)
qed

lemma split1_none: "c \<notin> set m \<Longrightarrow> py_split1 c m = [m]"
  by (simp add: py_split1_def)

lemmas py_int_defs =
  py_int_def is_int_literal_def py_strip_def is_space_def unsigned_part_def is_digit_def
  int_literal_value_def digits_value_def

lemma py_int_0: "py_int ''0'' = Inr 0"
  by (simp add: py_int_defs)

lemma py_int_1: "py_int ''1'' = Inr 1"
  by (simp add: py_int_defs)

lemma parse_bar:
  "CHR ''|'' \<notin> set x \<Longrightarrow>
     ParseGpiboeReceiveMessage (x @ CHR ''|'' # y) =
       (case py_int x of Inl e \<Rightarrow> Inl e | Inr code \<Rightarrow> Inr (code, y))"
  by (simp add: ParseGpiboeReceiveMessage_def split1_bar split: sum.splits)

lemma parse_no_bar:
  "CHR ''|'' \<notin> set x \<Longrightarrow>
     ParseGpiboeReceiveMessage x =
       (case py_int x of Inl e \<Rightarrow> Inl e | Inr code \<Rightarrow> Inr (code, []))"
  by (simp add: ParseGpiboeReceiveMessage_def split1_none split: sum.splits)

text \<open>
  Claim C7. Parsing a gateway reply splits it on the first bar only: the text before
  it is converted by \<^verbatim>\<open>int()\<close> to the status code, or raises its ValueError, and
  everything after it, further bars included, is the payload. \<^verbatim>\<open>"0|3.14159"\<close> parses to
  status 0 with payload \<^verbatim>\<open>"3.14159"\<close>; a reply with no bar, such as \<^verbatim>\<open>"0"\<close>, parses to its
  integer status with the empty payload.
\<close>

theorem C7_parse:
  "ParseGpiboeReceiveMessage ''0|3.14159'' = Inr (0, ''3.14159'')
   \<and> ParseGpiboeReceiveMessage ''0'' = Inr (0, [])
   \<and> (CHR ''|'' \<notin> set a \<longrightarrow>
        ParseGpiboeReceiveMessage (a @ CHR ''|'' # b) =
          (case py_int a of Inl e \<Rightarrow> Inl e | Inr code \<Rightarrow> Inr (code, b)))
   \<and> (CHR ''|'' \<notin> set m \<longrightarrow>
        ParseGpiboeReceiveMessage m =
          (case py_int m of Inl e \<Rightarrow> Inl e | Inr code \<Rightarrow> Inr (code, [])))"
proof -
  have "ParseGpiboeReceiveMessage (''0'' @ CHR ''|'' # ''3.14159'') = Inr (0, ''3.14159'')"
    by (subst parse_bar) (simp_all add: py_int_0)
  moreover have "ParseGpiboeReceiveMessage ''0'' = Inr (0, [])"
    by (subst parse_no_bar) (simp_all add: py_int_0)
  ultimately show ?thesis using parse_bar parse_no_bar by simp
qed

theorem C7_parse_witness:
  "ParseGpiboeReceiveMessage ''1|a|b'' = Inr (1, ''a|b'')
   \<and> ParseGpiboeReceiveMessage ''1'' = Inr (1, [])
   \<and> ParseGpiboeReceiveMessage (CHR 0x1C # ''7|bad'')
       = Inl (Exn ValueError [int_error_text [CHR 0x1C, CHR ''7'']])"
  using C7_parse [of "''1''" "''a|b''" "''1''"]
    C7_parse [of "[CHR 0x1C, CHR ''7'']" "''bad''" "''1''"]
  by (simp add: py_int_1 py_int_defs)

section \<open>The empty command\<close>

text \<open>
  Claim C9. For the empty command string both \<^verbatim>\<open>write\<close> and \<^verbatim>\<open>query\<close> raise IndexError
  from the terminator check \<^verbatim>\<open>message[-1]\<close>, before any transport call: the world, and with
  it the log of socket operations, is returned unchanged.
\<close>

theorem C9_empty_command:
  "write_cmd self [] t w = Some (Inl (Exn IndexError [''string index out of range'']), w)
   \<and> query self [] t w = Some (Inl (Exn IndexError [''string index out of range'']), w)"
  by (simp add: write_cmd_def query_def terminated_def py_last_def)

section \<open>Facts about the receive loop\<close>

lemma received_from_self: "received_from rs i i = []"
  by (simp add: received_from_def)

lemma received_from_step:
  assumes "i < k"
  shows "received_from rs i k = chunk_text (rs i) @ received_from rs (Suc i) k"
proof -
  have "[i..<k] = i # [Suc i..<k]" using assms by (rule upt_conv_Cons)
  then show ?thesis by (simp only: received_from_def list.map concat.simps)
qed

lemma received_from_Suc: "received_from rs i (Suc i) = chunk_text (rs i)"
  by (simp add: received_from_def)

lemma loop_inv_stop:
  assumes "rs i = Chunk b" "acc @ b \<noteq> []" "[last (acc @ b)] = tm"
  shows "loop_inv tm rs i acc (Suc i)"
  unfolding loop_inv_def
proof (intro conjI allI impI)
  show "i < Suc i" by simp
  show "is_chunk (rs j)" if "i \<le> j \<and> j < Suc i" for j
  proof -
    from that have "j = i" by simp
    with assms(1) show ?thesis by simp
  qed
  show "acc @ received_from rs i (Suc i) \<noteq> []"
    using assms(1,2) by (simp add: received_from_Suc)
  show "[last (acc @ received_from rs i (Suc i))] = tm"
    using assms(1,3) by (simp add: received_from_Suc)
  show "acc @ received_from rs i k \<noteq> []" if "i < k \<and> k < Suc i" for k
    using that by linarith
  show "[last (acc @ received_from rs i k)] \<noteq> tm" if "i < k \<and> k < Suc i" for k
    using that by linarith
qed

lemma loop_inv_continue:
  assumes c: "rs i = Chunk b" and ne: "acc @ b \<noteq> []" and nt: "[last (acc @ b)] \<noteq> tm"
  shows "loop_inv tm rs i acc n \<longleftrightarrow> loop_inv tm rs (Suc i) (acc @ b) n"
proof -
  have step: "acc @ received_from rs i k = (acc @ b) @ received_from rs (Suc i) k"
    if "i < k" for k
    using received_from_step [OF that, of rs] c by simp
  have one: "acc @ received_from rs i (Suc i) = acc @ b"
    using c by (simp add: received_from_Suc)
  show ?thesis
  proof
    assume l: "loop_inv tm rs i acc n"
    then have "i < n" by (simp add: loop_inv_def)
    have "n \<noteq> Suc i"
    proof
      assume "n = Suc i"
      with l have "[last (acc @ received_from rs i (Suc i))] = tm" by (simp add: loop_inv_def)
      with one nt show False by simp
    qed
    with \<open>i < n\<close> have lt: "Suc i < n" by linarith
    show "loop_inv tm rs (Suc i) (acc @ b) n"
      unfolding loop_inv_def
    proof (intro conjI allI impI)
      show "Suc i < n" by (rule lt)
      show "is_chunk (rs j)" if "Suc i \<le> j \<and> j < n" for j
      proof -
        from that have "i \<le> j \<and> j < n" by linarith
        with l show ?thesis unfolding loop_inv_def by blast
      qed
      from l have "acc @ received_from rs i n \<noteq> []" "[last (acc @ received_from rs i n)] = tm"
        unfolding loop_inv_def by blast+
      then show "(acc @ b) @ received_from rs (Suc i) n \<noteq> []"
        and "[last ((acc @ b) @ received_from rs (Suc i) n)] = tm"
        unfolding step [OF \<open>i < n\<close>] by simp_all
      show "(acc @ b) @ received_from rs (Suc i) k \<noteq> []" if "Suc i < k \<and> k < n" for k
        using ne by auto
      show "[last ((acc @ b) @ received_from rs (Suc i) k)] \<noteq> tm" if "Suc i < k \<and> k < n" for k
      proof -
        from that have ik: "i < k" and "i < k \<and> k < n" by linarith+
        with l have "[last (acc @ received_from rs i k)] \<noteq> tm" unfolding loop_inv_def by blast
        then show ?thesis unfolding step [OF ik] .
      qed
    qed
  next
    assume l: "loop_inv tm rs (Suc i) (acc @ b) n"
    then have lt: "Suc i < n" by (simp add: loop_inv_def)
    then have "i < n" by simp
    show "loop_inv tm rs i acc n"
      unfolding loop_inv_def
    proof (intro conjI allI impI)
      show "i < n" by (rule \<open>i < n\<close>)
      show "is_chunk (rs j)" if "i \<le> j \<and> j < n" for j
      proof (cases "j = i")
        case True then show ?thesis using c by simp
      next
        case False
        with that have "Suc i \<le> j \<and> j < n" by linarith
        with l show ?thesis unfolding loop_inv_def by blast
      qed
      from l have "(acc @ b) @ received_from rs (Suc i) n \<noteq> []"
        "[last ((acc @ b) @ received_from rs (Suc i) n)] = tm"
        unfolding loop_inv_def by blast+
      then show "acc @ received_from rs i n \<noteq> []" and "[last (acc @ received_from rs i n)] = tm"
        unfolding step [OF \<open>i < n\<close>] by simp_all
      show "acc @ received_from rs i k \<noteq> []" if "i < k \<and> k < n" for k
      proof -
        from that have ik: "i < k" by simp
        show ?thesis unfolding step [OF ik] using ne by auto
      qed
      show "[last (acc @ received_from rs i k)] \<noteq> tm" if "i < k \<and> k < n" for k
      proof (cases "k = Suc i")
        case True
        then show ?thesis using one nt by simp
      next
        case False
        with that have ik: "i < k" and "Suc i < k \<and> k < n" by linarith+
        with l have "[last ((acc @ b) @ received_from rs (Suc i) k)] \<noteq> tm"
          unfolding loop_inv_def by blast
        then show ?thesis unfolding step [OF ik] .
      qed
    qed
  qed
qed

lemma py_last_nonempty: "s \<noteq> [] \<Longrightarrow> py_last s = Inr (last s)"
  by (cases s) (simp_all add: py_last_def)

lemma py_last_empty: "py_last [] = Inl (Exn IndexError [''string index out of range''])"
  by (simp add: py_last_def)

lemma recv_loop_raise: "rs i = RecvRaises e \<Longrightarrow> recv_loop tm rs i acc = Some (Inl e, Suc i)"
  by (subst recv_loop.simps) simp

lemma recv_loop_empty:
  "rs i = Chunk b \<Longrightarrow> acc @ b = [] \<Longrightarrow>
     recv_loop tm rs i acc = Some (Inl (Exn IndexError [''string index out of range'']), Suc i)"
  by (subst recv_loop.simps) (simp add: py_last_empty)

lemma recv_loop_stop:
  "rs i = Chunk b \<Longrightarrow> acc @ b \<noteq> [] \<Longrightarrow> [last (acc @ b)] = tm \<Longrightarrow>
     recv_loop tm rs i acc = Some (Inr (acc @ b), Suc i)"
  by (subst recv_loop.simps) (simp add: py_last_nonempty Let_def)

lemma recv_loop_continue:
  "rs i = Chunk b \<Longrightarrow> acc @ b \<noteq> [] \<Longrightarrow> [last (acc @ b)] \<noteq> tm \<Longrightarrow>
     recv_loop tm rs i acc = recv_loop tm rs (Suc i) (acc @ b)"
  by (subst recv_loop.simps) (simp add: py_last_nonempty Let_def)

lemma recv_loop_sound:
  assumes "recv_loop tm rs i acc = Some (Inr msg, n)"
  shows "loop_inv tm rs i acc n \<and> msg = acc @ received_from rs i n"
proof -
  have "\<forall>msg n. y = (Inr msg, n) \<longrightarrow>
          loop_inv tm rs i acc n \<and> msg = acc @ received_from rs i n"
    if "recv_loop tm rs i acc = Some y" for y
    using that
  proof (induction rule: recv_loop.raw_induct [rotated, consumes 1])
    case (1 loop tm rs i acc y)
    show ?case
    proof (cases "rs i")
      case (RecvRaises e)
      with 1(2) show ?thesis by auto
    next
      case (Chunk b)
      show ?thesis
      proof (cases "acc @ b = []")
        case True
        with 1(2) Chunk show ?thesis by (auto simp: py_last_empty)
      next
        case ne: False
        show ?thesis
        proof (cases "[last (acc @ b)] = tm")
          case True
          with 1(2) Chunk ne have "y = (Inr (acc @ b), Suc i)"
            by (simp add: Let_def py_last_nonempty)
          with loop_inv_stop [where rs = rs and i = i and acc = acc and b = b, OF Chunk ne True] Chunk show ?thesis
            by (simp add: received_from_Suc)
        next
          case False
          with 1(2) Chunk ne have "loop tm rs (Suc i) (acc @ b) = Some y"
            by (simp add: Let_def py_last_nonempty)
          from 1(1) [OF this]
          have ih: "\<forall>msg n. y = (Inr msg, n) \<longrightarrow>
              loop_inv tm rs (Suc i) (acc @ b) n \<and> msg = (acc @ b) @ received_from rs (Suc i) n" .
          show ?thesis
          proof (intro allI impI)
            fix msg n
            assume "y = (Inr msg, n)"
            with ih have l: "loop_inv tm rs (Suc i) (acc @ b) n"
              and m: "msg = (acc @ b) @ received_from rs (Suc i) n" by blast+
            from l have "i < n" by (simp add: loop_inv_def)
            from received_from_step [OF this, of rs] Chunk m
            have "msg = acc @ received_from rs i n" by simp
            with l loop_inv_continue [where rs = rs and i = i and acc = acc and b = b, OF Chunk ne False, of n]
            show "loop_inv tm rs i acc n \<and> msg = acc @ received_from rs i n" by blast
          qed
        qed
      qed
    qed
  qed
  from this [OF assms] show ?thesis by blast
qed

lemma recv_loop_complete:
  assumes "loop_inv tm rs i acc n"
  shows "recv_loop tm rs i acc = Some (Inr (acc @ received_from rs i n), n)"
  using assms
proof (induction d \<equiv> "n - i" arbitrary: i acc)
  case 0
  then show ?case by (simp add: loop_inv_def)
next
  case (Suc d)
  from Suc.prems have "i \<le> i \<and> i < n \<longrightarrow> is_chunk (rs i)" unfolding loop_inv_def by blast
  moreover from Suc.prems have "i < n" by (simp add: loop_inv_def)
  ultimately have "is_chunk (rs i)" by simp
  then obtain b where Chunk: "rs i = Chunk b" by (cases "rs i") auto
  have one: "acc @ received_from rs i (Suc i) = acc @ b"
    using Chunk by (simp add: received_from_Suc)
  show ?case
  proof (cases "n = Suc i")
    case True
    with Suc.prems have "acc @ received_from rs i (Suc i) \<noteq> []"
      "[last (acc @ received_from rs i (Suc i))] = tm"
      by (simp_all add: loop_inv_def)
    then have ne: "acc @ b \<noteq> []" and tm: "[last (acc @ b)] = tm"
      unfolding one by simp_all
    from recv_loop_stop [where rs = rs and i = i and acc = acc and b = b, OF Chunk ne tm] True one show ?thesis by simp
  next
    case False
    with \<open>i < n\<close> have lt: "i < Suc i \<and> Suc i < n" by linarith
    with Suc.prems have "acc @ received_from rs i (Suc i) \<noteq> []
        \<and> [last (acc @ received_from rs i (Suc i))] \<noteq> tm"
      unfolding loop_inv_def by blast
    then have ne: "acc @ b \<noteq> []" and tm: "[last (acc @ b)] \<noteq> tm"
      unfolding one by simp_all
    from Suc.prems loop_inv_continue [where rs = rs and i = i and acc = acc and b = b, OF Chunk ne tm, of n]
    have inv': "loop_inv tm rs (Suc i) (acc @ b) n" by simp
    from Suc.hyps(2) lt have "d = n - Suc i" by linarith
    from Suc.hyps(1) [OF this inv']
    have "recv_loop tm rs (Suc i) (acc @ b)
            = Some (Inr ((acc @ b) @ received_from rs (Suc i) n), n)" .
    moreover from received_from_step [OF \<open>i < n\<close>, of rs] Chunk
    have "(acc @ b) @ received_from rs (Suc i) n = acc @ received_from rs i n" by simp
    ultimately show ?thesis
      using recv_loop_continue [where rs = rs and i = i and acc = acc and b = b, OF Chunk ne tm] by simp
  qed
qed

section \<open>Facts about the direct transport\<close>

lemma recv_loop_raise_at:
  assumes "i \<le> n" and "rs n = RecvRaises e"
    and "\<forall>j. i \<le> j \<and> j < n \<longrightarrow> is_chunk (rs j)"
    and "\<forall>k. i < k \<and> k \<le> n \<longrightarrow>
           acc @ received_from rs i k \<noteq> [] \<and> [last (acc @ received_from rs i k)] \<noteq> tm"
  shows "recv_loop tm rs i acc = Some (Inl e, Suc n)"
  using assms
proof (induction d \<equiv> "n - i" arbitrary: i acc)
  case 0
  then have "i = n" by simp
  with 0 show ?case by (simp add: recv_loop_raise)
next
  case (Suc d)
  then have lt: "i < n" by linarith
  with Suc.prems(3) have "is_chunk (rs i)" by simp
  then obtain b where Chunk: "rs i = Chunk b" by (cases "rs i") auto
  have step: "acc @ received_from rs i k = (acc @ b) @ received_from rs (Suc i) k"
    if "i < k" for k
    using received_from_step [OF that, of rs] Chunk by simp
  have one: "acc @ received_from rs i (Suc i) = acc @ b"
    using Chunk by (simp add: received_from_Suc)
  from lt have "i < Suc i \<and> Suc i \<le> n" by linarith
  with Suc.prems(4) have "acc @ received_from rs i (Suc i) \<noteq> []
      \<and> [last (acc @ received_from rs i (Suc i))] \<noteq> tm" by blast
  then have ne: "acc @ b \<noteq> []" and tm: "[last (acc @ b)] \<noteq> tm"
    unfolding one by simp_all
  have d: "d = n - Suc i" using Suc.hyps(2) by linarith
  have le: "Suc i \<le> n" using lt by simp
  have chunks: "\<forall>j. Suc i \<le> j \<and> j < n \<longrightarrow> is_chunk (rs j)"
    using Suc.prems(3) by auto
  have accs: "\<forall>k. Suc i < k \<and> k \<le> n \<longrightarrow>
           (acc @ b) @ received_from rs (Suc i) k \<noteq> []
           \<and> [last ((acc @ b) @ received_from rs (Suc i) k)] \<noteq> tm"
  proof (intro allI impI)
    fix k assume k: "Suc i < k \<and> k \<le> n"
    then have ik: "i < k" and "i < k \<and> k \<le> n" by linarith+
    with Suc.prems(4) have "acc @ received_from rs i k \<noteq> []
        \<and> [last (acc @ received_from rs i k)] \<noteq> tm" by blast
    then show "(acc @ b) @ received_from rs (Suc i) k \<noteq> []
           \<and> [last ((acc @ b) @ received_from rs (Suc i) k)] \<noteq> tm"
      unfolding step [OF ik] .
  qed
  from Suc.hyps(1) [OF d le Suc.prems(2) chunks accs]
  have "recv_loop tm rs (Suc i) (acc @ b) = Some (Inl e, Suc n)" .
  then show ?case
    using recv_loop_continue [where rs = rs and i = i and acc = acc and b = b, OF Chunk ne tm]
    by simp
qed

lemma sent_append: "sent (xs @ ys) = sent xs @ sent ys"
  by (induction xs rule: sent.induct) simp_all

lemma sent_replicate_Recv: "sent (replicate n (Recv k)) = []"
  by (induction n) simp_all

lemma try_sent:
  assumes "TcpipTransfer_try self p m rr t = Some (r, evs)"
  shows "(sent evs = [m] \<or> sent evs = []) \<and> ((\<exists>x. r = Inr x) \<longrightarrow> sent evs = [m])"
  using assms
  by (auto simp: TcpipTransfer_try_def Let_def sent_append sent_replicate_Recv
      split: option.splits if_splits sum.splits prod.splits)

lemma tcpip_sent:
  assumes "TcpipTransfer self m rr t w = Some (r, w')"
  shows "(sent (trace w') = sent (trace w) @ [m] \<or> sent (trace w') = sent (trace w))
         \<and> ((\<exists>p. r = Inr (0, p)) \<longrightarrow> sent (trace w') = sent (trace w) @ [m])
         \<and> calls w' = Suc (calls w) \<and> peers w' = peers w"
proof -
  from assms obtain r0 evs where
    t: "TcpipTransfer_try self (peers w (calls w)) m rr t = Some (r0, evs)"
    and r: "r = TcpipTransfer_except r0"
    and w': "w' = w\<lparr>calls := Suc (calls w), trace := trace w @ evs\<rparr>"
    by (auto simp: TcpipTransfer_def split: option.splits)
  from try_sent [OF t] have s: "sent evs = [m] \<or> sent evs = []"
    and s0: "(\<exists>x. r0 = Inr x) \<longrightarrow> sent evs = [m]" by auto
  have "(\<exists>p. r = Inr (0, p)) \<longrightarrow> (\<exists>x. r0 = Inr x)"
    using r by (auto simp: TcpipTransfer_except_def split: sum.splits list.splits)
  with s s0 w' show ?thesis by (auto simp: sent_append)
qed

lemma try_sent_exact:
  assumes "TcpipTransfer_try self p m rr t = Some (r, evs)"
  shows "sent evs = (if reaches_sendall p t then [m] else [])"
  using assms
  by (auto simp: TcpipTransfer_try_def Let_def sent_append sent_replicate_Recv
      reaches_sendall_def split: option.splits if_splits sum.splits prod.splits)

lemma tcpip_sent_exact:
  assumes "TcpipTransfer self m rr t w = Some (r, w')"
  shows "sent (trace w') =
           sent (trace w) @ (if reaches_sendall (peers w (calls w)) t then [m] else [])"
proof -
  from assms obtain r0 evs where
    t: "TcpipTransfer_try self (peers w (calls w)) m rr t = Some (r0, evs)"
    and w': "w' = w\<lparr>calls := Suc (calls w), trace := trace w @ evs\<rparr>"
    by (auto simp: TcpipTransfer_def split: option.splits)
  from try_sent_exact [OF t] w' show ?thesis by (simp add: sent_append)
qed

lemma recv_loop_raises:
  assumes "recv_loop tm rs i acc = Some (Inl e, n)"
  shows "(\<exists>j. rs j = RecvRaises e) \<or> e = Exn IndexError [''string index out of range'']"
proof -
  have "(case y of (Inl e, n) \<Rightarrow>
           (\<exists>j. rs j = RecvRaises e) \<or> e = Exn IndexError [''string index out of range'']
         | (Inr x, n) \<Rightarrow> True)"
    if "recv_loop tm rs i acc = Some y" for y
    using that
  proof (induction rule: recv_loop.raw_induct [rotated, consumes 1])
    case (1 loop tm rs i acc y)
    then show ?case
      by (auto simp: Let_def py_last_def split: recv_result.splits sum.splits if_splits list.splits)
  qed
  from this [OF assms] show ?thesis by simp
qed

lemma try_raises_args:
  assumes "peer_args_ok p" and "TcpipTransfer_try self p m rr t = Some (Inl e, evs)"
  shows "exc_args e \<noteq> []"
proof -
  have loop: "exc_args e \<noteq> []"
    if "recv_loop (message_termination_character self) (recv_results p) 0 [] = Some (Inl e, n)"
    for n
    using recv_loop_raises [OF that] assms(1) by (auto simp: peer_args_ok_def)
  from assms show ?thesis
    by (auto simp: TcpipTransfer_try_def Let_def peer_args_ok_def dest: loop
        split: option.splits if_splits sum.splits prod.splits)
qed

text \<open>
  The receive loop need not end: once the accumulated text is non-empty and unterminated
  and the peer has closed, every further \<^verbatim>\<open>recv\<close> returns the empty chunk at once and the
  loop runs on. A direct query answered with \<^verbatim>\<open>"12.5"\<close> and a close never returns.
\<close>

lemma recv_loop_hangs:
  assumes "\<forall>j. i \<le> j \<longrightarrow> rs j = Chunk []" and "acc \<noteq> []" and "[last acc] \<noteq> tm"
  shows "recv_loop tm rs i acc = None"
proof (rule ccontr)
  assume "recv_loop tm rs i acc \<noteq> None"
  then obtain y where y: "recv_loop tm rs i acc = Some y" by auto
  have "\<not> ((\<forall>j. i \<le> j \<longrightarrow> rs j = Chunk []) \<and> acc \<noteq> [] \<and> [last acc] \<noteq> tm)"
    using y
  proof (induction rule: recv_loop.raw_induct [rotated, consumes 1])
    case (1 loop tm rs i acc y)
    show ?case
    proof
      assume h: "(\<forall>j. i \<le> j \<longrightarrow> rs j = Chunk []) \<and> acc \<noteq> [] \<and> [last acc] \<noteq> tm"
      then have c: "rs i = Chunk []" by simp
      from h have "py_last acc = Inr (last acc)" by (simp add: py_last_nonempty)
      with 1(2) c h have "loop tm rs (Suc i) acc = Some y" by (simp add: Let_def)
      from 1(1) [OF this] h show False by auto
    qed
  qed
  with assms show False by blast
qed

lemma hang_example:
  "TcpipTransfer direct_conn ''MEAS:VOLT?\<newline>'' True 1 (world_of [replying [''12.5'']]) = None"
proof -
  have "recv_loop ''\<newline>'' (recv_results (replying [''12.5''])) 1 ''12.5'' = None"
    by (rule recv_loop_hangs) (simp_all add: replying_def)
  then have "recv_loop ''\<newline>'' (recv_results (replying [''12.5''])) 0 [] = None"
    by (subst recv_loop.simps) (simp add: replying_def py_last_def)
  then show ?thesis
    by (simp add: TcpipTransfer_def TcpipTransfer_try_def world_of_def direct_conn_def
        replying_def)
qed

section \<open>Concrete runs\<close>

lemmas run_defs =
  query_def write_cmd_def terminated_def py_last_def direct_conn_def gateway_conn_def
  world_of_def replying_def recv_failing_def refusing_def
  TcpipTransfer_def TcpipTransfer_try_def TcpipTransfer_except_def recv_loop.simps
  GpiboeTransfer_def write_frame_def read_frame_def HandleStatus_def
  ParseGpiboeReceiveMessage_def py_split1_def str_opt_int_def Let_def

lemma str_int_minus_1: "str_int (- 1) = ''-1''"
  by code_simp

lemma str_int_5: "str_int 5 = ''5''"
  by code_simp

lemma direct_conn_built: "tcpip (Some ''192.168.1.20'') = Inr direct_conn"
  by (simp add: tcpip_def init_def direct_conn_def str_opt_str_def)

lemma gateway_conn_built: "gpiboe (Some 5) (Some ''192.168.1.30'') = Inr gateway_conn"
  by (simp add: gpiboe_def init_def gateway_conn_def str_opt_str_def ValidateGpibAddress_def)

section \<open>The status gate\<close>

text \<open>
  Claim C1, as stated: on status 0 \<^verbatim>\<open>query\<close> returns the payload text and \<^verbatim>\<open>write\<close>
  returns nothing. The code returns the status list in both cases: a direct query
  answered with \<^verbatim>\<open>"12.500\n"\<close> returns \<^verbatim>\<open>[0, "12.500\n"]\<close>, not the text, and a successful
  direct write returns \<^verbatim>\<open>[0, ""]\<close>, not \<^verbatim>\<open>None\<close>.
\<close>

theorem C1_query_returns_status_list:
  "map_option fst (query direct_conn ''MEAS:VOLT?'' 1 (world_of [replying [''12.500\<newline>'']]))
     = Some (Inr (PyList [PyInt 0, PyStr ''12.500\<newline>'']))
   \<and> map_option fst (query direct_conn ''MEAS:VOLT?'' 1 (world_of [replying [''12.500\<newline>'']]))
     \<noteq> Some (Inr (PyStr ''12.500\<newline>''))
   \<and> map_option fst (write_cmd direct_conn ''OUTP 1'' 1 (world_of [replying []]))
     = Some (Inr (PyList [PyInt 0, PyStr []]))
   \<and> map_option fst (write_cmd direct_conn ''OUTP 1'' 1 (world_of [replying []]))
     \<noteq> Some (Inr PyNone)"
  by (simp add: run_defs)

text \<open>
  Claim C1, as amended. For every non-empty command whose transfer yields a status
  \<^verbatim>\<open>[code, payload]\<close>: when the code is 0, \<^verbatim>\<open>query\<close> and \<^verbatim>\<open>write\<close> return the two-element list
  \<^verbatim>\<open>[0, payload]\<close> with the payload unaltered; otherwise they raise ConnectionError with
  the message \<^verbatim>\<open>"ERROR: " + str(code) + ", " + payload\<close>.
\<close>

theorem C1_status_gate:
  assumes "terminated self message = Inr m"
  shows
    "((if connection_type self = ''gpiboe'' then GpiboeTransfer self m True t w
       else TcpipTransfer self m True t w) = Some (Inr (code, payload), w') \<longrightarrow>
      query self message t w =
        Some (if code = 0 then Inr (PyList [PyInt 0, PyStr payload])
              else Inl (Exn ConnectionError [''ERROR: '' @ str_int code @ '', '' @ payload]), w'))
     \<and> ((if connection_type self = ''gpiboe'' then GpiboeTransfer self m False t w
       else TcpipTransfer self m False t w) = Some (Inr (code, payload), w') \<longrightarrow>
      write_cmd self message t w =
        Some (if code = 0 then Inr (PyList [PyInt 0, PyStr payload])
              else Inl (Exn ConnectionError [''ERROR: '' @ str_int code @ '', '' @ payload]), w'))"
  using assms by (simp add: query_def write_cmd_def HandleStatus_def)

theorem C1_status_gate_witness:
  "query direct_conn ''MEAS:VOLT?'' 1 (world_of []) =
     Some (Inl (Exn ConnectionError [''ERROR: -1, [ERROR] during TCPIP transfer: 111'']),
           (world_of [])
             \<lparr>calls := 1,
              trace := [Socket, Settimeout 1, Connect (Some ''192.168.1.20'') 5025]\<rparr>)
   \<and> query direct_conn ''MEAS:VOLT?'' 1 (world_of [replying [''12.500\<newline>'']]) =
     Some (Inr (PyList [PyInt 0, PyStr ''12.500\<newline>'']),
           (world_of [replying [''12.500\<newline>'']])
             \<lparr>calls := 1,
              trace := [Socket, Settimeout 1, Connect (Some ''192.168.1.20'') 5025,
                        Sendall ''MEAS:VOLT?\<newline>'', Recv 4096, Shutdown, Close]\<rparr>)"
proof -
  have tm: "terminated direct_conn ''MEAS:VOLT?'' = Inr ''MEAS:VOLT?\<newline>''"
    by (simp add: terminated_def py_last_def direct_conn_def)
  have ct: "connection_type direct_conn \<noteq> ''gpiboe''"
    by (simp add: direct_conn_def)
  have t1: "TcpipTransfer direct_conn ''MEAS:VOLT?\<newline>'' True 1 (world_of []) =
     Some (Inr (- 1, ''[ERROR] during TCPIP transfer: 111''),
           (world_of [])
             \<lparr>calls := 1,
              trace := [Socket, Settimeout 1, Connect (Some ''192.168.1.20'') 5025]\<rparr>)"
    by (simp add: run_defs)
  have t2: "TcpipTransfer direct_conn ''MEAS:VOLT?\<newline>'' True 1
       (world_of [replying [''12.500\<newline>'']]) =
     Some (Inr (0, ''12.500\<newline>''),
           (world_of [replying [''12.500\<newline>'']])
             \<lparr>calls := 1,
              trace := [Socket, Settimeout 1, Connect (Some ''192.168.1.20'') 5025,
                        Sendall ''MEAS:VOLT?\<newline>'', Recv 4096, Shutdown, Close]\<rparr>)"
    by (simp add: run_defs)
  from C1_status_gate [OF tm, where t = 1 and w = "world_of []" and code = "- 1"
      and payload = "''[ERROR] during TCPIP transfer: 111''"
      and w' = "(world_of [])
             \<lparr>calls := 1,
              trace := [Socket, Settimeout 1, Connect (Some ''192.168.1.20'') 5025]\<rparr>"]
    ct t1
  have a: "query direct_conn ''MEAS:VOLT?'' 1 (world_of []) =
     Some (Inl (Exn ConnectionError [''ERROR: -1, [ERROR] during TCPIP transfer: 111'']),
           (world_of [])
             \<lparr>calls := 1,
              trace := [Socket, Settimeout 1, Connect (Some ''192.168.1.20'') 5025]\<rparr>)"
    by (simp add: str_int_minus_1)
  from C1_status_gate [OF tm, where t = 1 and w = "world_of [replying [''12.500\<newline>'']]"
      and code = 0 and payload = "''12.500\<newline>''"
      and w' = "(world_of [replying [''12.500\<newline>'']])
             \<lparr>calls := 1,
              trace := [Socket, Settimeout 1, Connect (Some ''192.168.1.20'') 5025,
                        Sendall ''MEAS:VOLT?\<newline>'', Recv 4096, Shutdown, Close]\<rparr>"]
    ct t2
  have b: "query direct_conn ''MEAS:VOLT?'' 1 (world_of [replying [''12.500\<newline>'']]) =
     Some (Inr (PyList [PyInt 0, PyStr ''12.500\<newline>'']),
           (world_of [replying [''12.500\<newline>'']])
             \<lparr>calls := 1,
              trace := [Socket, Settimeout 1, Connect (Some ''192.168.1.20'') 5025,
                        Sendall ''MEAS:VOLT?\<newline>'', Recv 4096, Shutdown, Close]\<rparr>)"
    by simp
  from a b show ?thesis by simp
qed

section \<open>Release of the socket\<close>

text \<open>
  Claim C8, at a failing input. A peer accepts the connection and never answers, so the
  first \<^verbatim>\<open>recv\<close> raises the timeout. The direct transport returns the status -1 from its
  handler, and the socket operations it has called end with that \<^verbatim>\<open>recv\<close>: neither
  \<^verbatim>\<open>shutdown\<close> nor \<^verbatim>\<open>close\<close> is called on the error path.
\<close>

theorem C8_error_path_leaves_socket_open:
  "map_option fst (TcpipTransfer direct_conn ''MEAS:VOLT?\<newline>'' True 1
       (world_of [recv_failing (Exn TimeoutError [''timed out''])]))
     = Some (Inr (- 1, ''[ERROR] during TCPIP transfer: timed out''))
   \<and> map_option (trace \<circ> snd) (TcpipTransfer direct_conn ''MEAS:VOLT?\<newline>'' True 1
       (world_of [recv_failing (Exn TimeoutError [''timed out''])]))
     = Some [Socket, Settimeout 1, Connect (Some ''192.168.1.20'') 5025,
             Sendall ''MEAS:VOLT?\<newline>'', Recv 4096]"
  by (simp add: run_defs)

section \<open>The direct transport and exceptions\<close>

lemma tcpip_raised:
  assumes "TcpipTransfer_try self (peers w (calls w)) m rr t = Some (Inl e, evs)"
    and "exc_args e = a # as"
  shows "TcpipTransfer self m rr t w =
           Some (Inr (- 1, ''[ERROR] during TCPIP transfer: '' @ a),
                 w\<lparr>calls := Suc (calls w), trace := trace w @ evs\<rparr>)"
  using assms by (simp add: TcpipTransfer_def TcpipTransfer_except_def)

lemma tcpip_status:
  assumes "peer_args_ok (peers w (calls w))" and "TcpipTransfer self m rr t w = Some (r, w')"
  shows "(\<exists>text. r = Inr (0, text))
          \<or> (\<exists>a. r = Inr (- 1, ''[ERROR] during TCPIP transfer: '' @ a))"
proof -
  from assms(2) obtain r0 evs0 where
    t: "TcpipTransfer_try self (peers w (calls w)) m rr t = Some (r0, evs0)"
    and r: "r = TcpipTransfer_except r0"
    by (auto simp: TcpipTransfer_def split: option.splits)
  show ?thesis
  proof (cases r0)
    case (Inl e0)
    with try_raises_args [OF assms(1)] t have "exc_args e0 \<noteq> []" by blast
    with Inl r show ?thesis
      by (auto simp: TcpipTransfer_except_def split: list.splits)
  next
    case (Inr x)
    with r show ?thesis by (simp add: TcpipTransfer_except_def)
  qed
qed

text \<open>
  Claim C2, as stated: the transport functions never raise. The gateway-framed
  transport raises ValueError on the acknowledgement \<^verbatim>\<open>"x|\n"\<close>, and the direct transport
  raises IndexError from its own handler when the exception it caught has an empty
  \<^verbatim>\<open>args\<close> tuple.
\<close>

theorem C2_transport_raises:
  "map_option fst (GpiboeTransfer gateway_conn ''VOLT 5V\<newline>'' False 1
       (world_of [replying [''x|\<newline>'']]))
     = Some (Inl (Exn ValueError [''invalid literal for int() with base 10: '' @ squote ''x'']))
   \<and> map_option fst (TcpipTransfer direct_conn ''MEAS:VOLT?\<newline>'' True 1
       (world_of [recv_failing (Exn MemoryError [])]))
     = Some (Inl (Exn IndexError [''tuple index out of range'']))"
  by (simp add: run_defs py_int_defs int_error_text_def py_repr_def repr_char_def squote_def)

text \<open>
  Claim C2, as amended. The direct transport turns every exception that arises in its
  \<^verbatim>\<open>try\<close> block and carries at least one argument into the returned status
  \<^verbatim>\<open>[-1, "[ERROR] during TCPIP transfer: " + str(err.args[0])]\<close>, a non-empty text containing
  \<^verbatim>\<open>ERROR\<close>: an exception raised by \<^verbatim>\<open>connect\<close>, by \<^verbatim>\<open>sendall\<close>, or by any \<^verbatim>\<open>recv\<close> call of the
  receive loop, and in general any exception leaving the \<^verbatim>\<open>try\<close> block. When every
  exception of the peer script carries an argument, a direct transfer that returns
  never raises: its result is a status with code 0 or with code -1 and such a text.
\<close>

theorem C2_direct_transport_catches:
  assumes args: "exc_args e = a # as"
  shows
    "(socket_raises (peers w (calls w)) = None \<and> 0 \<le> t
          \<and> connect_raises (peers w (calls w)) = Some e \<longrightarrow>
        map_option fst (TcpipTransfer self m rr t w)
          = Some (Inr (- 1, ''[ERROR] during TCPIP transfer: '' @ a)))
     \<and> (socket_raises (peers w (calls w)) = None \<and> 0 \<le> t
          \<and> connect_raises (peers w (calls w)) = None
          \<and> sendall_raises (peers w (calls w)) = Some e \<longrightarrow>
        map_option fst (TcpipTransfer self m rr t w)
          = Some (Inr (- 1, ''[ERROR] during TCPIP transfer: '' @ a)))
     \<and> (socket_raises (peers w (calls w)) = None \<and> 0 \<le> t
          \<and> connect_raises (peers w (calls w)) = None
          \<and> sendall_raises (peers w (calls w)) = None
          \<and> recv_results (peers w (calls w)) n = RecvRaises e
          \<and> (\<forall>j. j < n \<longrightarrow> is_chunk (recv_results (peers w (calls w)) j))
          \<and> (\<forall>k. 0 < k \<and> k \<le> n \<longrightarrow>
                received (recv_results (peers w (calls w))) k \<noteq> []
                \<and> [last (received (recv_results (peers w (calls w))) k)]
                    \<noteq> message_termination_character self) \<longrightarrow>
        map_option fst (TcpipTransfer self m True t w)
          = Some (Inr (- 1, ''[ERROR] during TCPIP transfer: '' @ a)))
     \<and> (TcpipTransfer_try self (peers w (calls w)) m rr t = Some (Inl e, evs) \<longrightarrow>
        TcpipTransfer self m rr t w
          = Some (Inr (- 1, ''[ERROR] during TCPIP transfer: '' @ a),
                  w\<lparr>calls := Suc (calls w), trace := trace w @ evs\<rparr>))
     \<and> (peer_args_ok (peers w (calls w)) \<longrightarrow>
          (\<forall>r w'. TcpipTransfer self m rr t w = Some (r, w') \<longrightarrow>
             (\<exists>text. r = Inr (0, text))
             \<or> (\<exists>b. r = Inr (- 1, ''[ERROR] during TCPIP transfer: '' @ b))))"
proof (intro conjI impI allI)
  assume "socket_raises (peers w (calls w)) = None \<and> 0 \<le> t
          \<and> connect_raises (peers w (calls w)) = Some e"
  then show "map_option fst (TcpipTransfer self m rr t w)
          = Some (Inr (- 1, ''[ERROR] during TCPIP transfer: '' @ a))"
    using args
    by (simp add: TcpipTransfer_def TcpipTransfer_try_def TcpipTransfer_except_def Let_def)
next
  assume "socket_raises (peers w (calls w)) = None \<and> 0 \<le> t
          \<and> connect_raises (peers w (calls w)) = None
          \<and> sendall_raises (peers w (calls w)) = Some e"
  then show "map_option fst (TcpipTransfer self m rr t w)
          = Some (Inr (- 1, ''[ERROR] during TCPIP transfer: '' @ a))"
    using args
    by (simp add: TcpipTransfer_def TcpipTransfer_try_def TcpipTransfer_except_def Let_def)
next
  assume h: "socket_raises (peers w (calls w)) = None \<and> 0 \<le> t
          \<and> connect_raises (peers w (calls w)) = None
          \<and> sendall_raises (peers w (calls w)) = None
          \<and> recv_results (peers w (calls w)) n = RecvRaises e
          \<and> (\<forall>j. j < n \<longrightarrow> is_chunk (recv_results (peers w (calls w)) j))
          \<and> (\<forall>k. 0 < k \<and> k \<le> n \<longrightarrow>
                received (recv_results (peers w (calls w))) k \<noteq> []
                \<and> [last (received (recv_results (peers w (calls w))) k)]
                    \<noteq> message_termination_character self)"
  have "recv_loop (message_termination_character self) (recv_results (peers w (calls w))) 0 []
          = Some (Inl e, Suc n)"
    by (rule recv_loop_raise_at) (use h in \<open>simp_all add: received_def\<close>)
  then show "map_option fst (TcpipTransfer self m True t w)
          = Some (Inr (- 1, ''[ERROR] during TCPIP transfer: '' @ a))"
    using h args
    by (simp add: TcpipTransfer_def TcpipTransfer_try_def TcpipTransfer_except_def Let_def)
next
  assume "TcpipTransfer_try self (peers w (calls w)) m rr t = Some (Inl e, evs)"
  then show "TcpipTransfer self m rr t w
          = Some (Inr (- 1, ''[ERROR] during TCPIP transfer: '' @ a),
                  w\<lparr>calls := Suc (calls w), trace := trace w @ evs\<rparr>)"
    using args by (rule tcpip_raised)
next
  fix r w'
  assume "peer_args_ok (peers w (calls w))" "TcpipTransfer self m rr t w = Some (r, w')"
  then show "(\<exists>text. r = Inr (0, text))
             \<or> (\<exists>b. r = Inr (- 1, ''[ERROR] during TCPIP transfer: '' @ b))"
    by (rule tcpip_status)
qed

theorem C2_direct_transport_catches_witness:
  "map_option fst (TcpipTransfer direct_conn ''MEAS:VOLT?\<newline>'' True 1 (world_of []))
     = Some (Inr (- 1, ''[ERROR] during TCPIP transfer: 111''))
   \<and> map_option fst (TcpipTransfer direct_conn ''MEAS:VOLT?\<newline>'' True 1
        (world_of [recv_failing (Exn TimeoutError [''timed out''])]))
     = Some (Inr (- 1, ''[ERROR] during TCPIP transfer: timed out''))
   \<and> peer_args_ok (peers (world_of []) (calls (world_of [])))"
proof -
  have a1: "exc_args (Exn OSError [''111'', ''Connection refused''])
              = ''111'' # [''Connection refused'']"
    and a2: "exc_args (Exn TimeoutError [''timed out'']) = ''timed out'' # []"
    by simp_all
  from C2_direct_transport_catches [OF a1, where w = "world_of []" and t = 1
      and self = direct_conn and m = "''MEAS:VOLT?\<newline>''" and rr = True]
  have c1: "map_option fst (TcpipTransfer direct_conn ''MEAS:VOLT?\<newline>'' True 1 (world_of []))
     = Some (Inr (- 1, ''[ERROR] during TCPIP transfer: 111''))"
    by (simp add: world_of_def refusing_def)
  from C2_direct_transport_catches [OF a2,
      where w = "world_of [recv_failing (Exn TimeoutError [''timed out''])]" and t = 1
      and self = direct_conn and m = "''MEAS:VOLT?\<newline>''" and n = 0]
  have c2: "map_option fst (TcpipTransfer direct_conn ''MEAS:VOLT?\<newline>'' True 1
        (world_of [recv_failing (Exn TimeoutError [''timed out''])]))
     = Some (Inr (- 1, ''[ERROR] during TCPIP transfer: timed out''))"
    by (simp add: world_of_def recv_failing_def)
  have c3: "peer_args_ok (peers (world_of []) (calls (world_of [])))"
    by (simp add: world_of_def refusing_def peer_args_ok_def)
  from c1 c2 c3 show ?thesis by simp
qed

section \<open>The payload of a direct query\<close>

lemma try_success:
  "TcpipTransfer_try self p m True t = Some (Inr msg, evs) \<longleftrightarrow>
     socket_raises p = None \<and> 0 \<le> t \<and> connect_raises p = None \<and> sendall_raises p = None
     \<and> shutdown_raises p = None \<and> close_raises p = None
     \<and> (\<exists>n. recv_loop (message_termination_character self) (recv_results p) 0 []
                = Some (Inr msg, n)
             \<and> evs = [Socket, Settimeout t, Connect (device_ip_address self) (device_port self),
                       Sendall m] @ replicate n (Recv 4096) @ [Shutdown, Close])"
  by (auto simp: TcpipTransfer_try_def Let_def
      split: option.splits if_splits sum.splits prod.splits)

lemma except_success:
  "TcpipTransfer_except r0 = Inr (0, payload) \<longleftrightarrow> r0 = Inr payload"
  by (auto simp: TcpipTransfer_except_def split: sum.splits list.splits)

lemma recv_loop_iff:
  "recv_loop tm rs 0 [] = Some (Inr msg, n) \<longleftrightarrow> loop_inv tm rs 0 [] n \<and> msg = received rs n"
  using recv_loop_sound [of tm rs 0 "[]" msg n] recv_loop_complete [of tm rs 0 "[]" n]
  by (auto simp: received_def)

text \<open>
  Claim C5, as amended. A direct-transport query succeeds exactly when no socket
  operation raises and some number \<open>n\<close> of \<^verbatim>\<open>recv\<close> calls deliver chunks such that the text
  accumulated after the \<open>n\<close>-th is non-empty and ends with the terminator, while the text
  accumulated after each earlier call is non-empty and does not end with it. The payload
  is then the whole text of these \<open>n\<close> chunks, terminator retained; a terminator inside a
  chunk does not end the read.
\<close>

theorem C5_query_payload:
  "TcpipTransfer self m True t w = Some (Inr (0, payload), w') \<longleftrightarrow>
     socket_raises (peers w (calls w)) = None \<and> 0 \<le> t
     \<and> connect_raises (peers w (calls w)) = None \<and> sendall_raises (peers w (calls w)) = None
     \<and> shutdown_raises (peers w (calls w)) = None \<and> close_raises (peers w (calls w)) = None
     \<and> (\<exists>n. loop_inv (message_termination_character self)
                (recv_results (peers w (calls w))) 0 [] n
             \<and> payload = received (recv_results (peers w (calls w))) n
             \<and> w' = w\<lparr>calls := Suc (calls w),
                       trace := trace w @
                         [Socket, Settimeout t,
                          Connect (device_ip_address self) (device_port self), Sendall m]
                         @ replicate n (Recv 4096) @ [Shutdown, Close]\<rparr>)"
proof -
  have "TcpipTransfer self m True t w = Some (Inr (0, payload), w') \<longleftrightarrow>
      (\<exists>evs. TcpipTransfer_try self (peers w (calls w)) m True t = Some (Inr payload, evs)
         \<and> w' = w\<lparr>calls := Suc (calls w), trace := trace w @ evs\<rparr>)"
    by (auto simp: TcpipTransfer_def except_success split: option.splits)
  then show ?thesis
    unfolding try_success recv_loop_iff by auto
qed

theorem C5_query_payload_witness:
  "TcpipTransfer direct_conn ''MEAS:VOLT?\<newline>'' True 1 (world_of [replying [''12.5'', ''00\<newline>'']])
     = Some (Inr (0, ''12.500\<newline>''),
         (world_of [replying [''12.5'', ''00\<newline>'']])
           \<lparr>calls := 1,
            trace := [Socket, Settimeout 1, Connect (Some ''192.168.1.20'') 5025,
                      Sendall ''MEAS:VOLT?\<newline>'', Recv 4096, Recv 4096, Shutdown, Close]\<rparr>)
   \<and> (\<exists>n. loop_inv ''\<newline>'' (recv_results (replying [''12.5'', ''00\<newline>''])) 0 [] n
          \<and> ''12.500\<newline>'' = received (recv_results (replying [''12.5'', ''00\<newline>''])) n)"
proof -
  have run: "TcpipTransfer direct_conn ''MEAS:VOLT?\<newline>'' True 1
       (world_of [replying [''12.5'', ''00\<newline>'']])
     = Some (Inr (0, ''12.500\<newline>''),
         (world_of [replying [''12.5'', ''00\<newline>'']])
           \<lparr>calls := 1,
            trace := [Socket, Settimeout 1, Connect (Some ''192.168.1.20'') 5025,
                      Sendall ''MEAS:VOLT?\<newline>'', Recv 4096, Recv 4096, Shutdown, Close]\<rparr>)"
    by (simp add: run_defs)
  from run [unfolded C5_query_payload]
  have "\<exists>n. loop_inv (message_termination_character direct_conn)
            (recv_results (peers (world_of [replying [''12.5'', ''00\<newline>'']])
               (calls (world_of [replying [''12.5'', ''00\<newline>'']])))) 0 [] n
          \<and> ''12.500\<newline>'' = received (recv_results
               (peers (world_of [replying [''12.5'', ''00\<newline>'']])
               (calls (world_of [replying [''12.5'', ''00\<newline>'']])))) n"
    by blast
  then have "\<exists>n. loop_inv ''\<newline>'' (recv_results (replying [''12.5'', ''00\<newline>''])) 0 [] n
          \<and> ''12.500\<newline>'' = received (recv_results (replying [''12.5'', ''00\<newline>''])) n"
    by (simp add: world_of_def direct_conn_def)
  with run show ?thesis by simp
qed

text \<open>
  Claim C5, as stated: the payload ends at the first terminator of the byte stream. A
  peer delivering \<^verbatim>\<open>"1\n2\n"\<close> in one chunk gets the whole chunk returned, not \<^verbatim>\<open>"1\n"\<close>.
\<close>

theorem C5_stops_at_chunk_end_only:
  "map_option fst (query direct_conn ''MEAS:VOLT?'' 1 (world_of [replying [''1\<newline>2\<newline>'']]))
     = Some (Inr (PyList [PyInt 0, PyStr ''1\<newline>2\<newline>'']))
   \<and> received (recv_results (replying [''1\<newline>2\<newline>''])) 1 = ''1\<newline>2\<newline>''
   \<and> upto_first (CHR ''\<newline>'') (received (recv_results (replying [''1\<newline>2\<newline>''])) 1) = ''1\<newline>''
   \<and> ''1\<newline>2\<newline>'' \<noteq> upto_first (CHR ''\<newline>'') (received (recv_results (replying [''1\<newline>2\<newline>''])) 1)"
  by (simp add: run_defs received_def received_from_def upto_first_def)

section \<open>The frames of a gateway transfer\<close>

lemma gpiboe_run:
  assumes "GpiboeTransfer self message rr t w = Some (res, w')"
  shows "\<exists>r1 w1.
       TcpipTransfer self
          (''W|'' @ str_opt_int (device_gpib_address self) @ ''|'' @ message) True t w
         = Some (r1, w1)
     \<and> (if rr \<and> (\<exists>reply p. r1 = Inr (0, reply) \<and> ParseGpiboeReceiveMessage reply = Inr (0, p))
        then (\<exists>r2.
               TcpipTransfer self
                 (''R|'' @ str_opt_int (device_gpib_address self)
                    @ message_termination_character self) True t w1
                 = Some (r2, w')
               \<and> calls w' = calls w + 2
               \<and> (sent (trace w') = sent (trace w)
                     @ [''W|'' @ str_opt_int (device_gpib_address self) @ ''|'' @ message,
                        ''R|'' @ str_opt_int (device_gpib_address self)
                          @ message_termination_character self]
                   \<or> sent (trace w') = sent (trace w)
                     @ [''W|'' @ str_opt_int (device_gpib_address self) @ ''|'' @ message])
               \<and> ((\<exists>q. r2 = Inr (0, q)) \<longrightarrow>
                    sent (trace w') = sent (trace w)
                     @ [''W|'' @ str_opt_int (device_gpib_address self) @ ''|'' @ message,
                        ''R|'' @ str_opt_int (device_gpib_address self)
                          @ message_termination_character self]))
        else w' = w1 \<and> calls w' = calls w + 1
             \<and> (sent (trace w') = sent (trace w)
                     @ [''W|'' @ str_opt_int (device_gpib_address self) @ ''|'' @ message]
                 \<or> sent (trace w') = sent (trace w))
             \<and> ((\<exists>reply. r1 = Inr (0, reply)) \<longrightarrow>
                  sent (trace w') = sent (trace w)
                     @ [''W|'' @ str_opt_int (device_gpib_address self) @ ''|'' @ message]))
     \<and> (\<forall>c p. r1 = Inr (c, p) \<and> c \<noteq> 0 \<longrightarrow> res = Inr (c, p))
     \<and> (\<forall>reply c p. r1 = Inr (0, reply) \<and> ParseGpiboeReceiveMessage reply = Inr (c, p)
            \<and> c \<noteq> 0 \<longrightarrow> res = Inr (c, p))"
proof -
  let ?W = "''W|'' @ str_opt_int (device_gpib_address self) @ ''|'' @ message"
  let ?R = "''R|'' @ str_opt_int (device_gpib_address self) @ message_termination_character self"
  from assms obtain r1 w1 where
    t1: "TcpipTransfer self ?W True t w = Some (r1, w1)"
    by (auto simp: GpiboeTransfer_def write_frame_def split: option.splits)
  note s1 = tcpip_sent [OF t1]
  show ?thesis
  proof (cases "rr \<and> (\<exists>reply p. r1 = Inr (0, reply) \<and> ParseGpiboeReceiveMessage reply = Inr (0, p))")
    case True
    then obtain reply p where rr: rr and r1: "r1 = Inr (0, reply)"
      and pr: "ParseGpiboeReceiveMessage reply = Inr (0, p)" by blast
    from assms t1 rr r1 pr obtain r2 where
      t2: "TcpipTransfer self ?R True t w1 = Some (r2, w')"
      by (auto simp: GpiboeTransfer_def write_frame_def read_frame_def
          split: option.splits sum.splits prod.splits if_splits)
    note s2 = tcpip_sent [OF t2]
    from s1 r1 have a: "sent (trace w1) = sent (trace w) @ [?W]" by blast
    from s1 s2 have c: "calls w' = calls w + 2" by simp
    from s2 a have b: "sent (trace w') = sent (trace w) @ [?W, ?R]
        \<or> sent (trace w') = sent (trace w) @ [?W]" by auto
    from s2 a have d: "(\<exists>q. r2 = Inr (0, q)) \<longrightarrow> sent (trace w') = sent (trace w) @ [?W, ?R]"
      by auto
    from True t1 t2 b c d r1 pr show ?thesis by auto
  next
    case False
    with assms t1 have w': "w' = w1"
      by (auto simp: GpiboeTransfer_def write_frame_def read_frame_def
          split: option.splits sum.splits prod.splits if_splits)
    from assms t1 have v1: "\<forall>c p. r1 = Inr (c, p) \<and> c \<noteq> 0 \<longrightarrow> res = Inr (c, p)"
      by (auto simp: GpiboeTransfer_def write_frame_def)
    from assms t1 have v2: "\<forall>reply c p. r1 = Inr (0, reply)
        \<and> ParseGpiboeReceiveMessage reply = Inr (c, p) \<and> c \<noteq> 0 \<longrightarrow> res = Inr (c, p)"
      by (auto simp: GpiboeTransfer_def write_frame_def)
    from False t1 w' s1 v1 v2 show ?thesis by auto
  qed
qed

lemma gpiboe_success_sent:
  assumes "GpiboeTransfer self message rr t w = Some (Inr (0, p), w')"
  shows "sent (trace w') = sent (trace w)
           @ (if rr then [write_frame self message, read_frame self]
              else [write_frame self message])"
proof -
  from assms obtain r1 w1 where
    t1: "TcpipTransfer self (write_frame self message) True t w = Some (r1, w1)"
    by (auto simp: GpiboeTransfer_def split: option.splits)
  from assms t1 obtain reply where r1: "r1 = Inr (0, reply)"
    by (cases r1) (auto simp: GpiboeTransfer_def split: if_splits)
  from tcpip_sent [OF t1] r1
  have a: "sent (trace w1) = sent (trace w) @ [write_frame self message]" by blast
  from assms t1 r1 obtain q where pr: "ParseGpiboeReceiveMessage reply = Inr (0, q)"
    by (cases "ParseGpiboeReceiveMessage reply")
       (auto simp: GpiboeTransfer_def split: if_splits option.splits prod.splits sum.splits)
  show ?thesis
  proof (cases rr)
    case False
    with assms t1 r1 pr have "w' = w1" by (simp add: GpiboeTransfer_def)
    with a False show ?thesis by simp
  next
    case True
    with assms t1 r1 pr obtain r2 where
      t2: "TcpipTransfer self (read_frame self) True t w1 = Some (r2, w')"
      by (auto simp: GpiboeTransfer_def split: option.splits sum.splits prod.splits if_splits)
    from assms t1 r1 pr True t2 obtain reply2 where "r2 = Inr (0, reply2)"
      by (cases r2) (auto simp: GpiboeTransfer_def split: if_splits)
    with tcpip_sent [OF t2] have "sent (trace w') = sent (trace w1) @ [read_frame self]"
      by blast
    with a True show ?thesis by simp
  qed
qed

lemma gpiboe_sent:
  assumes "GpiboeTransfer self message rr t w = Some (res, w')"
  shows "sent (trace w') = sent (trace w)
         \<or> sent (trace w') = sent (trace w) @ [write_frame self message]
         \<or> (rr \<and> sent (trace w') = sent (trace w) @ [write_frame self message, read_frame self])"
  using gpiboe_run [OF assms]
  by (auto simp: write_frame_def read_frame_def split: if_splits)

lemma gpiboe_diverges:
  "GpiboeTransfer self message rr t w = None \<longleftrightarrow>
     TcpipTransfer self
        (''W|'' @ str_opt_int (device_gpib_address self) @ ''|'' @ message) True t w = None
     \<or> (rr \<and> (\<exists>reply p w1.
            TcpipTransfer self
              (''W|'' @ str_opt_int (device_gpib_address self) @ ''|'' @ message) True t w
              = Some (Inr (0, reply), w1)
            \<and> ParseGpiboeReceiveMessage reply = Inr (0, p)
            \<and> TcpipTransfer self
                (''R|'' @ str_opt_int (device_gpib_address self)
                   @ message_termination_character self) True t w1 = None))"
proof (cases "TcpipTransfer self (write_frame self message) True t w")
  case None
  then show ?thesis by (simp add: GpiboeTransfer_def write_frame_def)
next
  case (Some y)
  obtain r1 w1 where y: "y = (r1, w1)" by (cases y)
  show ?thesis
  proof (cases r1)
    case (Inl e)
    with Some y show ?thesis by (simp add: GpiboeTransfer_def write_frame_def)
  next
    case (Inr st)
    obtain c reply where st: "st = (c, reply)" by (cases st)
    show ?thesis
    proof (cases "c = 0")
      case False
      with Some y Inr st show ?thesis by (simp add: GpiboeTransfer_def write_frame_def)
    next
      case True
      show ?thesis
      proof (cases "ParseGpiboeReceiveMessage reply")
        case (Inl e)
        with Some y Inr st True show ?thesis by (simp add: GpiboeTransfer_def write_frame_def)
      next
        case pr: (Inr g)
        obtain c' p where g: "g = (c', p)" by (cases g)
        show ?thesis
        proof (cases "c' = 0 \<and> rr")
          case False
          with Some y Inr st True pr g show ?thesis
            by (auto simp: GpiboeTransfer_def write_frame_def)
        next
          case t: True
          show ?thesis
          proof (cases "TcpipTransfer self (read_frame self) True t w1")
            case None
            with Some y Inr st True pr g t show ?thesis
              by (simp add: GpiboeTransfer_def write_frame_def read_frame_def)
          next
            case s2: (Some y2)
            obtain r2 w2 where y2: "y2 = (r2, w2)" by (cases y2)
            with Some y Inr st True pr g t s2 show ?thesis
              by (simp add: GpiboeTransfer_def write_frame_def read_frame_def
                  split: sum.splits)
          qed
        qed
      qed
    qed
  qed
qed

lemma gpiboe_sent_exact:
  assumes "GpiboeTransfer self message rr t w = Some (res, w')"
  shows "sent (trace w') = sent (trace w)
     @ (if reaches_sendall (peers w (calls w)) t
        then [''W|'' @ str_opt_int (device_gpib_address self) @ ''|'' @ message] else [])
     @ (if rr \<and> (\<exists>reply p w1.
               TcpipTransfer self
                 (''W|'' @ str_opt_int (device_gpib_address self) @ ''|'' @ message) True t w
                 = Some (Inr (0, reply), w1)
               \<and> ParseGpiboeReceiveMessage reply = Inr (0, p))
           \<and> reaches_sendall (peers w (Suc (calls w))) t
        then [''R|'' @ str_opt_int (device_gpib_address self)
                @ message_termination_character self] else [])"
proof -
  let ?W = "''W|'' @ str_opt_int (device_gpib_address self) @ ''|'' @ message"
  let ?R = "''R|'' @ str_opt_int (device_gpib_address self) @ message_termination_character self"
  from assms obtain r1 w1 where
    t1: "TcpipTransfer self ?W True t w = Some (r1, w1)"
    by (auto simp: GpiboeTransfer_def write_frame_def split: option.splits)
  note s1 = tcpip_sent_exact [OF t1]
  from tcpip_sent [OF t1] have c1: "calls w1 = Suc (calls w)" and p1: "peers w1 = peers w"
    by simp_all
  have cond: "(\<exists>reply p w1'. TcpipTransfer self ?W True t w = Some (Inr (0, reply), w1')
               \<and> ParseGpiboeReceiveMessage reply = Inr (0, p))
      \<longleftrightarrow> (\<exists>reply p. r1 = Inr (0, reply) \<and> ParseGpiboeReceiveMessage reply = Inr (0, p))"
    using t1 by auto
  show ?thesis
  proof (cases "rr \<and> (\<exists>reply p. r1 = Inr (0, reply)
                  \<and> ParseGpiboeReceiveMessage reply = Inr (0, p))")
    case True
    then obtain reply p where rr: rr and r1: "r1 = Inr (0, reply)"
      and pr: "ParseGpiboeReceiveMessage reply = Inr (0, p)" by blast
    from assms t1 rr r1 pr obtain r2 where
      t2: "TcpipTransfer self ?R True t w1 = Some (r2, w')"
      by (auto simp: GpiboeTransfer_def write_frame_def read_frame_def
          split: option.splits sum.splits prod.splits if_splits)
    from tcpip_sent [OF t1] r1 have x: "sent (trace w1) = sent (trace w) @ [?W]" by blast
    have ok1: "reaches_sendall (peers w (calls w)) t"
    proof (rule ccontr)
      assume "\<not> reaches_sendall (peers w (calls w)) t"
      with s1 have "sent (trace w1) = sent (trace w)" by simp
      with x show False by simp
    qed
    have eq: "(rr \<and> (\<exists>reply p w1'.
               TcpipTransfer self ?W True t w = Some (Inr (0, reply), w1')
               \<and> ParseGpiboeReceiveMessage reply = Inr (0, p))
           \<and> reaches_sendall (peers w (Suc (calls w))) t)
        = reaches_sendall (peers w (Suc (calls w))) t"
      using True cond by blast
    from tcpip_sent_exact [OF t2] c1 p1 x
    have "sent (trace w') = (sent (trace w) @ [?W])
        @ (if reaches_sendall (peers w (Suc (calls w))) t then [?R] else [])"
      by simp
    then show ?thesis
      unfolding eq using ok1 by simp
  next
    case False
    with assms t1 have w': "w' = w1"
      by (auto simp: GpiboeTransfer_def write_frame_def read_frame_def
          split: option.splits sum.splits prod.splits if_splits)
    have eq: "(rr \<and> (\<exists>reply p w1'.
               TcpipTransfer self ?W True t w = Some (Inr (0, reply), w1')
               \<and> ParseGpiboeReceiveMessage reply = Inr (0, p))
           \<and> reaches_sendall (peers w (Suc (calls w))) t)
        = False"
      using False cond by blast
    show ?thesis
      unfolding eq using s1 w' by simp
  qed
qed

text \<open>
  Claim C3, as stated: every gateway-framed transfer sends exactly one Write frame.
  When the gateway refuses the connection the transfer returns the status -1 of the
  direct transport and no frame has been handed to \<^verbatim>\<open>sendall\<close>.
\<close>

theorem C3_refused_gateway_sends_nothing:
  "map_option fst (GpiboeTransfer gateway_conn ''VOLT 5V\<newline>'' False 1 (world_of []))
     = Some (Inr (- 1, ''[ERROR] during TCPIP transfer: 111''))
   \<and> map_option (sent \<circ> trace \<circ> snd)
         (GpiboeTransfer gateway_conn ''VOLT 5V\<newline>'' False 1 (world_of []))
     = Some []"
  by (simp add: run_defs)

text \<open>
  Claim C3, as amended. Every gateway-framed transfer starts with one direct transfer of
  the Write frame \<^verbatim>\<open>"W|" + str(gpib_address) + "|" + message\<close>. A second direct transfer, of
  the Read frame, follows exactly when a response is expected and the Write transfer
  succeeded with an acknowledgement whose parsed status is 0; the transfer fails to
  return only when one of these two direct transfers does. When it returns, the frames
  handed to \<^verbatim>\<open>sendall\<close> are the Write frame, then the Read frame of the second transfer,
  each once and each exactly when its socket gets as far as \<^verbatim>\<open>sendall\<close>; without the
  second transfer the world is the one the Write transfer left; and a non-zero status,
  of the Write transfer or of the parsed acknowledgement, is returned with its payload
  unchanged.
\<close>

theorem C3_frames:
  "(GpiboeTransfer self message rr t w = None \<longleftrightarrow>
     TcpipTransfer self
        (''W|'' @ str_opt_int (device_gpib_address self) @ ''|'' @ message) True t w = None
     \<or> (rr \<and> (\<exists>reply p w1.
            TcpipTransfer self
              (''W|'' @ str_opt_int (device_gpib_address self) @ ''|'' @ message) True t w
              = Some (Inr (0, reply), w1)
            \<and> ParseGpiboeReceiveMessage reply = Inr (0, p)
            \<and> TcpipTransfer self
                (''R|'' @ str_opt_int (device_gpib_address self)
                   @ message_termination_character self) True t w1 = None)))
   \<and> (\<forall>res w'. GpiboeTransfer self message rr t w = Some (res, w') \<longrightarrow>
     (\<exists>r1 w1.
       TcpipTransfer self
          (''W|'' @ str_opt_int (device_gpib_address self) @ ''|'' @ message) True t w
         = Some (r1, w1)
     \<and> (if rr \<and> (\<exists>reply p. r1 = Inr (0, reply) \<and> ParseGpiboeReceiveMessage reply = Inr (0, p))
        then (\<exists>r2.
               TcpipTransfer self
                 (''R|'' @ str_opt_int (device_gpib_address self)
                    @ message_termination_character self) True t w1
                 = Some (r2, w')
               \<and> calls w' = calls w + 2
               \<and> (sent (trace w') = sent (trace w)
                     @ [''W|'' @ str_opt_int (device_gpib_address self) @ ''|'' @ message,
                        ''R|'' @ str_opt_int (device_gpib_address self)
                          @ message_termination_character self]
                   \<or> sent (trace w') = sent (trace w)
                     @ [''W|'' @ str_opt_int (device_gpib_address self) @ ''|'' @ message])
               \<and> ((\<exists>q. r2 = Inr (0, q)) \<longrightarrow>
                    sent (trace w') = sent (trace w)
                     @ [''W|'' @ str_opt_int (device_gpib_address self) @ ''|'' @ message,
                        ''R|'' @ str_opt_int (device_gpib_address self)
                          @ message_termination_character self]))
        else w' = w1 \<and> calls w' = calls w + 1
             \<and> (sent (trace w') = sent (trace w)
                     @ [''W|'' @ str_opt_int (device_gpib_address self) @ ''|'' @ message]
                 \<or> sent (trace w') = sent (trace w))
             \<and> ((\<exists>reply. r1 = Inr (0, reply)) \<longrightarrow>
                  sent (trace w') = sent (trace w)
                     @ [''W|'' @ str_opt_int (device_gpib_address self) @ ''|'' @ message]))
     \<and> (\<forall>c p. r1 = Inr (c, p) \<and> c \<noteq> 0 \<longrightarrow> res = Inr (c, p))
     \<and> (\<forall>reply c p. r1 = Inr (0, reply) \<and> ParseGpiboeReceiveMessage reply = Inr (c, p)
            \<and> c \<noteq> 0 \<longrightarrow> res = Inr (c, p)))
     \<and> sent (trace w') = sent (trace w)
     @ (if reaches_sendall (peers w (calls w)) t
        then [''W|'' @ str_opt_int (device_gpib_address self) @ ''|'' @ message] else [])
     @ (if rr \<and> (\<exists>reply p w1.
               TcpipTransfer self
                 (''W|'' @ str_opt_int (device_gpib_address self) @ ''|'' @ message) True t w
                 = Some (Inr (0, reply), w1)
               \<and> ParseGpiboeReceiveMessage reply = Inr (0, p))
           \<and> reaches_sendall (peers w (Suc (calls w))) t
        then [''R|'' @ str_opt_int (device_gpib_address self)
                @ message_termination_character self] else []))"
proof (intro conjI allI impI)
  show "GpiboeTransfer self message rr t w = None \<longleftrightarrow>
     TcpipTransfer self
        (''W|'' @ str_opt_int (device_gpib_address self) @ ''|'' @ message) True t w = None
     \<or> (rr \<and> (\<exists>reply p w1.
            TcpipTransfer self
              (''W|'' @ str_opt_int (device_gpib_address self) @ ''|'' @ message) True t w
              = Some (Inr (0, reply), w1)
            \<and> ParseGpiboeReceiveMessage reply = Inr (0, p)
            \<and> TcpipTransfer self
                (''R|'' @ str_opt_int (device_gpib_address self)
                   @ message_termination_character self) True t w1 = None))"
    by (rule gpiboe_diverges)
qed (erule gpiboe_run, erule gpiboe_sent_exact)

lemma py_int_7: "py_int ''7'' = Inr 7"
  by (simp add: py_int_defs)

theorem C3_frames_witness:
  "GpiboeTransfer gateway_conn ''VOLT 5V\<newline>'' True 1 (world_of [replying [''7|bad\<newline>'']])
     = Some (Inr (7, ''bad\<newline>''),
          (world_of [replying [''7|bad\<newline>'']])
            \<lparr>calls := 1,
             trace := [Socket, Settimeout 1, Connect (Some ''192.168.1.30'') 5025,
                       Sendall ''W|5|VOLT 5V\<newline>'', Recv 4096, Shutdown, Close]\<rparr>)
   \<and> (\<exists>r1 w1. TcpipTransfer gateway_conn ''W|5|VOLT 5V\<newline>'' True 1
                  (world_of [replying [''7|bad\<newline>'']]) = Some (r1, w1))
   \<and> reaches_sendall (peers (world_of [replying [''7|bad\<newline>'']]) 0) 1"
proof -
  have run: "GpiboeTransfer gateway_conn ''VOLT 5V\<newline>'' True 1
       (world_of [replying [''7|bad\<newline>'']])
     = Some (Inr (7, ''bad\<newline>''),
          (world_of [replying [''7|bad\<newline>'']])
            \<lparr>calls := 1,
             trace := [Socket, Settimeout 1, Connect (Some ''192.168.1.30'') 5025,
                       Sendall ''W|5|VOLT 5V\<newline>'', Recv 4096, Shutdown, Close]\<rparr>)"
    by (simp add: run_defs str_int_5 py_int_defs)
  from C3_frames [THEN conjunct2, rule_format, OF run]
  have "\<exists>r1 w1. TcpipTransfer gateway_conn
          (''W|'' @ str_opt_int (device_gpib_address gateway_conn) @ ''|'' @ ''VOLT 5V\<newline>'')
          True 1 (world_of [replying [''7|bad\<newline>'']]) = Some (r1, w1)"
    by blast
  then have "\<exists>r1 w1. TcpipTransfer gateway_conn ''W|5|VOLT 5V\<newline>'' True 1
                  (world_of [replying [''7|bad\<newline>'']]) = Some (r1, w1)"
    by (simp add: gateway_conn_def str_opt_int_def str_int_5)
  moreover have "reaches_sendall (peers (world_of [replying [''7|bad\<newline>'']]) 0) 1"
    by (simp add: reaches_sendall_def world_of_def replying_def)
  ultimately show ?thesis using run by simp
qed

section \<open>The terminator of a command\<close>

lemma terminated_nonempty:
  assumes "message \<noteq> []" and "message_termination_character self = [c]"
  shows "terminated self message = Inr (if last message = c then message else message @ [c])"
  using assms by (simp add: terminated_def py_last_nonempty)

lemma terminated_fixed:
  assumes "message \<noteq> []" and "message_termination_character self = [c]"
    and "m = (if last message = c then message else message @ [c])"
  shows "terminated self m = Inr m"
proof -
  from assms(3) have "m \<noteq> []" "last m = c"
    using assms(1) by (auto split: if_splits)
  with terminated_nonempty [of m self c] assms(2) show ?thesis by simp
qed

lemma same_as_terminated:
  assumes "terminated self message = Inr m" and "terminated self m = Inr m"
  shows "write_cmd self message t w = write_cmd self m t w"
    and "query self message t w = query self m t w"
  using assms by (simp_all add: write_cmd_def query_def)

lemma handled_ok: "HandleStatus st = Inr v \<Longrightarrow> \<exists>p. st = (0, p)"
  by (cases st) (auto simp: HandleStatus_def split: if_splits)

lemma handled_status:
  assumes "r = (case x of Inl e \<Rightarrow> Inl e | Inr st \<Rightarrow> HandleStatus st)" and "r = Inr v"
  shows "\<exists>p. x = Inr (0, p)"
proof (cases x)
  case (Inl e)
  with assms show ?thesis by simp
next
  case (Inr st)
  with assms have "HandleStatus st = Inr v" by simp
  from handled_ok [OF this] Inr show ?thesis by simp
qed

lemma direct_sent:
  assumes "TcpipTransfer self m rr t w = Some (x, w')"
    and "r = (case x of Inl e \<Rightarrow> Inl e | Inr st \<Rightarrow> HandleStatus st)"
  shows "(sent (trace w') = sent (trace w) @ [m] \<or> sent (trace w') = sent (trace w))
         \<and> ((\<exists>v. r = Inr v) \<longrightarrow> sent (trace w') = sent (trace w) @ [m])"
proof -
  have "(\<exists>v. r = Inr v) \<longrightarrow> (\<exists>p. x = Inr (0, p))"
    using handled_status [OF assms(2)] by blast
  with tcpip_sent [OF assms(1)] show ?thesis by blast
qed

lemma gateway_sent:
  assumes "GpiboeTransfer self m rr t w = Some (x, w')"
    and "r = (case x of Inl e \<Rightarrow> Inl e | Inr st \<Rightarrow> HandleStatus st)"
  shows "(sent (trace w') = sent (trace w)
          \<or> sent (trace w') = sent (trace w) @ [write_frame self m]
          \<or> (rr \<and> sent (trace w') = sent (trace w) @ [write_frame self m, read_frame self]))
         \<and> ((\<exists>v. r = Inr v) \<longrightarrow>
              sent (trace w') = sent (trace w)
                @ (if rr then [write_frame self m, read_frame self] else [write_frame self m]))"
proof (intro conjI impI)
  show "sent (trace w') = sent (trace w)
          \<or> sent (trace w') = sent (trace w) @ [write_frame self m]
          \<or> (rr \<and> sent (trace w') = sent (trace w) @ [write_frame self m, read_frame self])"
    by (rule gpiboe_sent [OF assms(1)])
next
  assume "\<exists>v. r = Inr v"
  then obtain p where "x = Inr (0, p)"
    using handled_status [OF assms(2)] by blast
  with assms(1) have "GpiboeTransfer self m rr t w = Some (Inr (0, p), w')" by simp
  then show "sent (trace w') = sent (trace w)
                @ (if rr then [write_frame self m, read_frame self] else [write_frame self m])"
    by (rule gpiboe_success_sent)
qed

lemma write_cmd_run:
  assumes "terminated self message = Inr m" and "write_cmd self message t w = Some (r, w')"
  shows "\<exists>x. (if connection_type self = ''gpiboe'' then GpiboeTransfer self m False t w
              else TcpipTransfer self m False t w) = Some (x, w')
            \<and> r = (case x of Inl e \<Rightarrow> Inl e | Inr st \<Rightarrow> HandleStatus st)"
proof (cases "if connection_type self = ''gpiboe'' then GpiboeTransfer self m False t w
              else TcpipTransfer self m False t w")
  case None
  with assms show ?thesis by (simp add: write_cmd_def)
next
  case (Some y)
  obtain x w1 where y: "y = (x, w1)" by (cases y)
  with Some assms show ?thesis
    by (cases x) (simp_all add: write_cmd_def)
qed

lemma query_run:
  assumes "terminated self message = Inr m" and "query self message t w = Some (r, w')"
  shows "\<exists>x. (if connection_type self = ''gpiboe'' then GpiboeTransfer self m True t w
              else TcpipTransfer self m True t w) = Some (x, w')
            \<and> r = (case x of Inl e \<Rightarrow> Inl e | Inr st \<Rightarrow> HandleStatus st)"
proof (cases "if connection_type self = ''gpiboe'' then GpiboeTransfer self m True t w
              else TcpipTransfer self m True t w")
  case None
  with assms show ?thesis by (simp add: query_def)
next
  case (Some y)
  obtain x w1 where y: "y = (x, w1)" by (cases y)
  with Some assms show ?thesis
    by (cases x) (simp_all add: query_def)
qed

text \<open>
  Claim C6, as amended. For every non-empty command and a one-character terminator,
  \<^verbatim>\<open>write\<close> and \<^verbatim>\<open>query\<close> hand on the command unchanged when it ends with the terminator and
  with the terminator appended once when it does not; terminating is idempotent, and a
  call with the command is the call with the terminated command. Every text given to
  \<^verbatim>\<open>sendall\<close> is that terminated command (direct kind), or the Write frame around it and
  the Read frame (gateway kind); when the call succeeds it has been sent.
\<close>

theorem C6_terminator_once:
  assumes ne: "message \<noteq> []" and tc: "message_termination_character self = [c]"
  shows "\<exists>m. terminated self message = Inr m
     \<and> m = (if last message = c then message else message @ [c])
     \<and> terminated self m = Inr m
     \<and> write_cmd self message t w = write_cmd self m t w
     \<and> query self message t w = query self m t w
     \<and> (connection_type self \<noteq> ''gpiboe'' \<longrightarrow>
          (\<forall>r w'. write_cmd self message t w = Some (r, w') \<longrightarrow>
             (sent (trace w') = sent (trace w) @ [m] \<or> sent (trace w') = sent (trace w))
             \<and> ((\<exists>v. r = Inr v) \<longrightarrow> sent (trace w') = sent (trace w) @ [m]))
          \<and> (\<forall>r w'. query self message t w = Some (r, w') \<longrightarrow>
             (sent (trace w') = sent (trace w) @ [m] \<or> sent (trace w') = sent (trace w))
             \<and> ((\<exists>v. r = Inr v) \<longrightarrow> sent (trace w') = sent (trace w) @ [m])))
     \<and> (connection_type self = ''gpiboe'' \<longrightarrow>
          (\<forall>r w'. write_cmd self message t w = Some (r, w') \<longrightarrow>
             (sent (trace w') = sent (trace w)
              \<or> sent (trace w') = sent (trace w) @ [write_frame self m])
             \<and> ((\<exists>v. r = Inr v) \<longrightarrow>
                  sent (trace w') = sent (trace w) @ [write_frame self m]))
          \<and> (\<forall>r w'. query self message t w = Some (r, w') \<longrightarrow>
             (sent (trace w') = sent (trace w)
              \<or> sent (trace w') = sent (trace w) @ [write_frame self m]
              \<or> sent (trace w') = sent (trace w) @ [write_frame self m, read_frame self])
             \<and> ((\<exists>v. r = Inr v) \<longrightarrow>
                  sent (trace w') = sent (trace w) @ [write_frame self m, read_frame self])))"
proof -
  let ?m = "if last message = c then message else message @ [c]"
  have tm: "terminated self message = Inr ?m"
    using ne tc by (rule terminated_nonempty)
  have dw: "(sent (trace w') = sent (trace w) @ [?m] \<or> sent (trace w') = sent (trace w))
         \<and> ((\<exists>v. r = Inr v) \<longrightarrow> sent (trace w') = sent (trace w) @ [?m])"
    if "connection_type self \<noteq> ''gpiboe''" and "write_cmd self message t w = Some (r, w')"
    for r w'
  proof -
    from write_cmd_run [OF tm that(2)] that(1) obtain x where
      "TcpipTransfer self ?m False t w = Some (x, w')"
      and "r = (case x of Inl e \<Rightarrow> Inl e | Inr st \<Rightarrow> HandleStatus st)"
      by auto
    then show ?thesis by (rule direct_sent)
  qed
  have dq: "(sent (trace w') = sent (trace w) @ [?m] \<or> sent (trace w') = sent (trace w))
         \<and> ((\<exists>v. r = Inr v) \<longrightarrow> sent (trace w') = sent (trace w) @ [?m])"
    if "connection_type self \<noteq> ''gpiboe''" and "query self message t w = Some (r, w')"
    for r w'
  proof -
    from query_run [OF tm that(2)] that(1) obtain x where
      "TcpipTransfer self ?m True t w = Some (x, w')"
      and "r = (case x of Inl e \<Rightarrow> Inl e | Inr st \<Rightarrow> HandleStatus st)"
      by auto
    then show ?thesis by (rule direct_sent)
  qed
  have gw: "(sent (trace w') = sent (trace w)
              \<or> sent (trace w') = sent (trace w) @ [write_frame self ?m])
             \<and> ((\<exists>v. r = Inr v) \<longrightarrow>
                  sent (trace w') = sent (trace w) @ [write_frame self ?m])"
    if "connection_type self = ''gpiboe''" and "write_cmd self message t w = Some (r, w')"
    for r w'
  proof -
    from write_cmd_run [OF tm that(2)] that(1) obtain x where
      "GpiboeTransfer self ?m False t w = Some (x, w')"
      and "r = (case x of Inl e \<Rightarrow> Inl e | Inr st \<Rightarrow> HandleStatus st)"
      by auto
    from gateway_sent [OF this] show ?thesis by simp
  qed
  have gq: "(sent (trace w') = sent (trace w)
              \<or> sent (trace w') = sent (trace w) @ [write_frame self ?m]
              \<or> sent (trace w') = sent (trace w) @ [write_frame self ?m, read_frame self])
             \<and> ((\<exists>v. r = Inr v) \<longrightarrow>
                  sent (trace w') = sent (trace w) @ [write_frame self ?m, read_frame self])"
    if "connection_type self = ''gpiboe''" and "query self message t w = Some (r, w')"
    for r w'
  proof -
    from query_run [OF tm that(2)] that(1) obtain x where
      "GpiboeTransfer self ?m True t w = Some (x, w')"
      and "r = (case x of Inl e \<Rightarrow> Inl e | Inr st \<Rightarrow> HandleStatus st)"
      by auto
    from gateway_sent [OF this] show ?thesis by simp
  qed
  have fx: "terminated self ?m = Inr ?m"
    using ne tc by (rule terminated_fixed) simp
  show ?thesis
  proof (intro exI [of _ ?m] conjI impI allI)
    show "terminated self message = Inr ?m" by (rule tm)
    show "terminated self ?m = Inr ?m" by (rule fx)
    show "write_cmd self message t w = write_cmd self ?m t w"
      using tm fx by (rule same_as_terminated)
    show "query self message t w = query self ?m t w"
      using tm fx by (rule same_as_terminated)
  qed (use dw dq gw gq in \<open>blast+\<close>)
qed

text \<open>
  Claim C6, as stated, for every command string: on the empty command no terminator is
  appended and nothing is sent; both calls raise IndexError and leave the world as it
  was.
\<close>

theorem C6_empty_command_sends_nothing:
  "write_cmd direct_conn [] 1 (world_of [replying []])
     = Some (Inl (Exn IndexError [''string index out of range'']), world_of [replying []])
   \<and> query direct_conn [] 1 (world_of [replying [''12.500\<newline>'']])
     = Some (Inl (Exn IndexError [''string index out of range'']),
             world_of [replying [''12.500\<newline>'']])
   \<and> sent (trace (world_of [replying []])) = []
   \<and> sent (trace (world_of [replying [''12.500\<newline>'']])) = []"
  by (simp add: write_cmd_def query_def terminated_def py_last_def world_of_def)

theorem C6_terminator_once_witness:
  "terminated direct_conn ''OUTP 1\<newline>'' = Inr ''OUTP 1\<newline>''
   \<and> terminated direct_conn ''MEAS:VOLT?'' = Inr ''MEAS:VOLT?\<newline>''"
proof -
  have tc: "message_termination_character direct_conn = [CHR ''\<newline>'']"
    by (simp add: direct_conn_def)
  have n1: "''OUTP 1\<newline>'' \<noteq> []" and n2: "''MEAS:VOLT?'' \<noteq> []"
    by simp_all
  from C6_terminator_once [OF n1 tc, of 1 "world_of []"]
  have a: "terminated direct_conn ''OUTP 1\<newline>'' = Inr ''OUTP 1\<newline>''"
    by auto
  from C6_terminator_once [OF n2 tc, of 1 "world_of []"]
  have b: "terminated direct_conn ''MEAS:VOLT?'' = Inr ''MEAS:VOLT?\<newline>''"
    by auto
  from a b show ?thesis by simp
qed

section \<open>Gateway replies that carry no integer status\<close>

lemma parse_head:
  "ParseGpiboeReceiveMessage reply =
     (case py_int (takeWhile (\<lambda>c. c \<noteq> CHR ''|'') reply) of
        Inl e \<Rightarrow> Inl e
      | Inr code \<Rightarrow>
          Inr (code, if CHR ''|'' \<in> set reply
                     then tl (dropWhile (\<lambda>c. c \<noteq> CHR ''|'') reply) else []))"
proof (cases "CHR ''|'' \<in> set reply")
  case True
  then show ?thesis
    by (simp add: ParseGpiboeReceiveMessage_def py_split1_def split: sum.splits)
next
  case False
  then have tw: "takeWhile (\<lambda>c. c \<noteq> CHR ''|'') reply = reply"
    by (auto simp: takeWhile_eq_all_conv)
  show ?thesis
    unfolding tw using False
    by (simp add: ParseGpiboeReceiveMessage_def py_split1_def split: sum.splits)
qed

lemma parse_bad:
  assumes "\<not> is_int_literal (takeWhile (\<lambda>c. c \<noteq> CHR ''|'') reply)"
  shows "ParseGpiboeReceiveMessage reply =
     Inl (Exn ValueError [int_error_text (takeWhile (\<lambda>c. c \<noteq> CHR ''|'') reply)])"
  using assms by (simp add: parse_head py_int_def)

text \<open>
  Claim C10. When the text of a gateway reply before its first bar (the whole reply when
  it has none) is not an integer literal as \<^verbatim>\<open>int()\<close> reads one, parsing it raises the
  ValueError of \<^verbatim>\<open>int()\<close>. For a connection of the gateway kind this exception leaves
  \<^verbatim>\<open>write\<close> and \<^verbatim>\<open>query\<close> as a raised exception, whether the reply is the acknowledgement
  of the Write frame or the answer to the Read frame: the result is no status list, with
  code -1 or any other.
\<close>

theorem C10_bad_status_propagates:
  assumes gw: "connection_type self = ''gpiboe''"
    and tm: "terminated self message = Inr m"
    and bad: "\<not> is_int_literal (takeWhile (\<lambda>c. c \<noteq> CHR ''|'') reply)"
  shows
    "ParseGpiboeReceiveMessage reply =
       Inl (Exn ValueError [int_error_text (takeWhile (\<lambda>c. c \<noteq> CHR ''|'') reply)])
     \<and> (TcpipTransfer self (write_frame self m) True t w = Some (Inr (0, reply), w1) \<longrightarrow>
          write_cmd self message t w =
            Some (Inl (Exn ValueError [int_error_text (takeWhile (\<lambda>c. c \<noteq> CHR ''|'') reply)]), w1)
          \<and> query self message t w =
            Some (Inl (Exn ValueError [int_error_text (takeWhile (\<lambda>c. c \<noteq> CHR ''|'') reply)]), w1))
     \<and> (TcpipTransfer self (write_frame self m) True t w = Some (Inr (0, ack), w1)
          \<and> ParseGpiboeReceiveMessage ack = Inr (0, p)
          \<and> TcpipTransfer self (read_frame self) True t w1 = Some (Inr (0, reply), w2) \<longrightarrow>
          query self message t w =
            Some (Inl (Exn ValueError [int_error_text (takeWhile (\<lambda>c. c \<noteq> CHR ''|'') reply)]), w2))"
proof (intro conjI impI)
  note pb = parse_bad [OF bad]
  show "ParseGpiboeReceiveMessage reply =
       Inl (Exn ValueError [int_error_text (takeWhile (\<lambda>c. c \<noteq> CHR ''|'') reply)])"
    by (rule pb)
  {
    assume t1: "TcpipTransfer self (write_frame self m) True t w = Some (Inr (0, reply), w1)"
    show "write_cmd self message t w =
            Some (Inl (Exn ValueError [int_error_text (takeWhile (\<lambda>c. c \<noteq> CHR ''|'') reply)]), w1)"
      using gw tm t1 pb by (simp add: write_cmd_def GpiboeTransfer_def)
    show "query self message t w =
            Some (Inl (Exn ValueError [int_error_text (takeWhile (\<lambda>c. c \<noteq> CHR ''|'') reply)]), w1)"
      using gw tm t1 pb by (simp add: query_def GpiboeTransfer_def)
  }
  assume "TcpipTransfer self (write_frame self m) True t w = Some (Inr (0, ack), w1)
          \<and> ParseGpiboeReceiveMessage ack = Inr (0, p)
          \<and> TcpipTransfer self (read_frame self) True t w1 = Some (Inr (0, reply), w2)"
  then show "query self message t w =
            Some (Inl (Exn ValueError [int_error_text (takeWhile (\<lambda>c. c \<noteq> CHR ''|'') reply)]), w2)"
    using gw tm pb by (simp add: query_def GpiboeTransfer_def)
qed

theorem C10_bad_status_propagates_witness:
  "write_cmd gateway_conn ''VOLT 5V'' 1 (world_of [replying [''x|\<newline>'']]) =
     Some (Inl (Exn ValueError [''invalid literal for int() with base 10: '' @ squote ''x'']),
           (world_of [replying [''x|\<newline>'']])
             \<lparr>calls := 1,
              trace := [Socket, Settimeout 1, Connect (Some ''192.168.1.30'') 5025,
                        Sendall ''W|5|VOLT 5V\<newline>'', Recv 4096, Shutdown, Close]\<rparr>)
   \<and> ParseGpiboeReceiveMessage (CHR 0x1C # ''5|x'')
       = Inl (Exn ValueError [int_error_text [CHR 0x1C, CHR ''5'']])"
proof -
  have gw: "connection_type gateway_conn = ''gpiboe''"
    by (simp add: gateway_conn_def)
  have tm: "terminated gateway_conn ''VOLT 5V'' = Inr ''VOLT 5V\<newline>''"
    by (simp add: terminated_def py_last_def gateway_conn_def)
  have bad: "\<not> is_int_literal (takeWhile (\<lambda>c. c \<noteq> CHR ''|'') ''x|\<newline>'')"
    by (simp add: py_int_defs)
  have t1: "TcpipTransfer gateway_conn (write_frame gateway_conn ''VOLT 5V\<newline>'') True 1
              (world_of [replying [''x|\<newline>'']])
            = Some (Inr (0, ''x|\<newline>''),
               (world_of [replying [''x|\<newline>'']])
                 \<lparr>calls := 1,
                  trace := [Socket, Settimeout 1, Connect (Some ''192.168.1.30'') 5025,
                            Sendall ''W|5|VOLT 5V\<newline>'', Recv 4096, Shutdown, Close]\<rparr>)"
    by (simp add: run_defs str_int_5)
  from C10_bad_status_propagates [OF gw tm bad, where t = 1
      and w = "world_of [replying [''x|\<newline>'']]"
      and ?w1.0 = "(world_of [replying [''x|\<newline>'']])
                 \<lparr>calls := 1,
                  trace := [Socket, Settimeout 1, Connect (Some ''192.168.1.30'') 5025,
                            Sendall ''W|5|VOLT 5V\<newline>'', Recv 4096, Shutdown, Close]\<rparr>"] t1
  have a: "write_cmd gateway_conn ''VOLT 5V'' 1 (world_of [replying [''x|\<newline>'']]) =
     Some (Inl (Exn ValueError [''invalid literal for int() with base 10: '' @ squote ''x'']),
           (world_of [replying [''x|\<newline>'']])
             \<lparr>calls := 1,
              trace := [Socket, Settimeout 1, Connect (Some ''192.168.1.30'') 5025,
                        Sendall ''W|5|VOLT 5V\<newline>'', Recv 4096, Shutdown, Close]\<rparr>)"
    by (simp add: int_error_text_def py_repr_def repr_char_def squote_def Let_def)
  have bad2: "\<not> is_int_literal (takeWhile (\<lambda>c. c \<noteq> CHR ''|'') (CHR 0x1C # ''5|x''))"
    by (simp add: py_int_defs)
  from C10_bad_status_propagates [OF gw tm bad2]
  have b: "ParseGpiboeReceiveMessage (CHR 0x1C # ''5|x'')
       = Inl (Exn ValueError [int_error_text [CHR 0x1C, CHR ''5'']])"
    by simp
  from a b show ?thesis by simp
qed

end
